theory Spec2Isabelle
  imports Main "HOL-Library.Word"
begin

section \<open>Byte strings and Python errors\<close>

type_synonym byte = "8 word"
type_synonym bytes = "byte list"

text \<open>A character of the type \<^typ>\<open>char\<close> has a code below 256: the byte with that
  code, and the character of a byte.\<close>

definition byte_of_char :: "char \<Rightarrow> byte" where
  "byte_of_char c = of_nat (of_char c)"

definition char_of_byte :: "byte \<Rightarrow> char" where
  "char_of_byte b = char_of (unat b)"

text \<open>The exceptions that the modelled functions can raise. Every \<open>raise\<close> of the
  source, and every exception raised by a library call, is a value \<open>Inl e\<close>.\<close>

datatype py_error =
    IndexError
  | KeyError
  | TypeError
  | ValueError
  | AttributeError
  | OverflowError
  | UnicodeError
  | BinasciiError
  | InvalidToken
  | InvalidKey
  | JSONDecodeError

section \<open>crypto\_utils.py: PKCS7 padding\<close>

text \<open>Python's slice \<open>xs[:-n]\<close> for a non-negative integer \<open>n\<close>: with \<open>n = 0\<close> the
  stop index is \<open>-0 = 0\<close> and the slice is empty; otherwise the stop index is
  \<open>len(xs) - n\<close>, clamped at 0.\<close>

definition slice_to_neg :: "'a list \<Rightarrow> nat \<Rightarrow> 'a list" where
  "slice_to_neg xs n = (if n = 0 then [] else take (length xs - n) xs)"

text \<open>\<open>_pad_data\<close>: \<open>padding_length = 16 - (len(data) % 16)\<close>,
  \<open>data + bytes([padding_length] * padding_length)\<close>.\<close>

definition pad_data :: "bytes \<Rightarrow> bytes" where
  "pad_data data =
     (let padding_length = 16 - (length data mod 16);
          padding = replicate padding_length (of_nat padding_length :: byte)
      in data @ padding)"

text \<open>\<open>_unpad_data\<close>: \<open>padding_length = padded_data[-1]\<close> (IndexError on the empty
  byte string), then \<open>padded_data[:-padding_length]\<close>.\<close>

definition unpad_data :: "bytes \<Rightarrow> py_error + bytes" where
  "unpad_data padded_data =
     (if padded_data = [] then Inl IndexError
      else let padding_length = unat (last padded_data)
           in Inr (slice_to_neg padded_data padding_length))"

section \<open>The Python values that tickets are made of\<close>

text \<open>The values \<open>json.loads\<close> returns and \<open>json.dumps\<close> accepts. A dict is an
  association list: Python dicts keep insertion order, and a key is looked up with
  \<open>map_of\<close>. A float is a mantissa and an exponent; no modelled operation looks inside
  a number beyond its truth value.\<close>

datatype json =
    JNull
  | JBool bool
  | JInt int
  | JFloat int int
  | JStr string
  | JList "json list"
  | JDict "(string \<times> json) list"

text \<open>\<open>v[k]\<close> with a string key: KeyError on a dict without the key, TypeError on
  every value that is not a dict.\<close>

definition subscript :: "json \<Rightarrow> string \<Rightarrow> py_error + json" where
  "subscript v k =
     (case v of
        JDict kvs \<Rightarrow> (case map_of kvs k of None \<Rightarrow> Inl KeyError | Some x \<Rightarrow> Inr x)
      | _ \<Rightarrow> Inl TypeError)"

text \<open>\<open>d.get(k, default)\<close> on the entries of a dict.\<close>

definition get_or :: "(string \<times> json) list \<Rightarrow> string \<Rightarrow> json \<Rightarrow> json" where
  "get_or kvs k dflt = (case map_of kvs k of None \<Rightarrow> dflt | Some x \<Rightarrow> x)"

text \<open>\<open>v.get(k, default)\<close> on a decoded value: only a dict has the method;
  \<open>v.get(k)\<close> is \<open>dict_get v k JNull\<close>, Python's \<open>None\<close> being \<open>JNull\<close>.\<close>

definition dict_get :: "json \<Rightarrow> string \<Rightarrow> json \<Rightarrow> py_error + json" where
  "dict_get v k dflt =
     (case v of
        JDict kvs \<Rightarrow> Inr (get_or kvs k dflt)
      | _ \<Rightarrow> Inl AttributeError)"

text \<open>Python's truth value of a decoded value, as \<open>if not tgt_data\<close> tests it.\<close>

fun truthy :: "json \<Rightarrow> bool" where
  "truthy JNull = False"
| "truthy (JBool b) = b"
| "truthy (JInt i) = (i \<noteq> 0)"
| "truthy (JFloat m e) = (m \<noteq> 0)"
| "truthy (JStr s) = (s \<noteq> [])"
| "truthy (JList xs) = (xs \<noteq> [])"
| "truthy (JDict kvs) = (kvs \<noteq> [])"

text \<open>A \<open>datetime\<close> is a count of microseconds since 0001-01-01T00:00:00, naive
  (no time zone, what \<open>datetime.now()\<close> returns) or aware. Comparing a naive with an
  aware datetime raises TypeError.\<close>

datatype datetime = Naive int | Aware int

fun datetime_gt :: "datetime \<Rightarrow> datetime \<Rightarrow> py_error + bool" where
  "datetime_gt (Naive a) (Naive b) = Inr (a > b)"
| "datetime_gt (Aware a) (Aware b) = Inr (a > b)"
| "datetime_gt _ _ = Inl TypeError"

definition hours :: "int \<Rightarrow> int" where
  "hours h = h * 3600 * 1000000"

text \<open>\<open>datetime.max\<close> is 9999-12-31T23:59:59.999999, the last microsecond of day
  3652059 of the calendar. \<open>datetime + timedelta\<close> raises OverflowError when the sum
  leaves the range from \<open>datetime.min\<close> to \<open>datetime.max\<close>.\<close>

definition datetime_max :: int where
  "datetime_max = 3652059 * 86400 * 1000000 - 1"

definition datetime_add :: "int \<Rightarrow> int \<Rightarrow> py_error + int" where
  "datetime_add t delta =
     (if 0 \<le> t + delta \<and> t + delta \<le> datetime_max then Inr (t + delta)
      else Inl OverflowError)"

section \<open>The libraries and the world\<close>

text \<open>The functions of the Python standard library and of the packages
  \<open>cryptography\<close> and \<open>bcrypt\<close> that the source calls are not part of the repository:
  they are the fields of a record that every modelled function takes as its first
  argument. A call that draws from the system's random source takes the number of the
  draw; \<open>now_at n\<close> is what the \<open>n\<close>-th call of \<open>datetime.now()\<close> returns;
  \<open>random_byte d i\<close> is byte \<open>i\<close> of draw \<open>d\<close>; \<open>pbkdf2_stream\<close> gives, for a
  salt, an iteration count and the key block of HMAC, byte \<open>i\<close> of the blocks
  \<open>T1 T2 ...\<close> of PBKDF2, of which a derived key is a prefix.\<close>

datatype hash_alg = SHA256

record py_lib =
  getenv :: "string \<Rightarrow> string option"
  utf8_encode :: "string \<Rightarrow> py_error + bytes"
  utf8_decode :: "bytes \<Rightarrow> py_error + string"
  b64encode :: "bytes \<Rightarrow> bytes"
  b64decode :: "bytes \<Rightarrow> py_error + bytes"
  urlsafe_b64encode :: "bytes \<Rightarrow> bytes"
  sha256 :: "bytes \<Rightarrow> bytes"
  pbkdf2_stream :: "hash_alg \<Rightarrow> bytes \<Rightarrow> nat \<Rightarrow> bytes \<Rightarrow> nat \<Rightarrow> byte"
  fernet_encrypt :: "bytes \<Rightarrow> nat \<Rightarrow> bytes \<Rightarrow> bytes"
  fernet_decrypt :: "bytes \<Rightarrow> bytes \<Rightarrow> py_error + bytes"
  aes_cbc_encrypt :: "bytes \<Rightarrow> bytes \<Rightarrow> bytes \<Rightarrow> py_error + bytes"
  aes_cbc_decrypt :: "bytes \<Rightarrow> bytes \<Rightarrow> bytes \<Rightarrow> py_error + bytes"
  token_urlsafe :: "nat \<Rightarrow> nat \<Rightarrow> string"
  random_byte :: "nat \<Rightarrow> nat \<Rightarrow> byte"
  json_dumps :: "json \<Rightarrow> string"
  json_loads :: "string \<Rightarrow> py_error + json"
  now_at :: "nat \<Rightarrow> int"
  isoformat :: "int \<Rightarrow> string"
  fromisoformat :: "string \<Rightarrow> py_error + datetime"
  bcrypt_gensalt :: "nat \<Rightarrow> bytes"
  bcrypt_hashpw :: "bytes \<Rightarrow> bytes \<Rightarrow> py_error + bytes"
  bcrypt_checkpw :: "bytes \<Rightarrow> bytes \<Rightarrow> py_error + bool"

text \<open>The state a call changes: how often the clock has been read and how many draws
  the random source has given.\<close>

record world =
  clock_reads :: nat
  rand_draws :: nat

definition datetime_now :: "py_lib \<Rightarrow> world \<Rightarrow> int \<times> world" where
  "datetime_now L w = (now_at L (clock_reads w), w\<lparr>clock_reads := Suc (clock_reads w)\<rparr>)"

definition draw :: "world \<Rightarrow> nat \<times> world" where
  "draw w = (rand_draws w, w\<lparr>rand_draws := Suc (rand_draws w)\<rparr>)"

text \<open>\<open>secrets.token_bytes(nbytes)\<close>: the first \<open>nbytes\<close> bytes of the draw.\<close>

definition token_bytes :: "py_lib \<Rightarrow> nat \<Rightarrow> nat \<Rightarrow> bytes" where
  "token_bytes L nbytes d = map (random_byte L d) [0..<nbytes]"

text \<open>HMAC (RFC 2104) with SHA-256 has blocks of 64 bytes: a key longer than a block
  is replaced by its digest, and the key is then filled with zero bytes to the length of
  a block.\<close>

definition hmac_key_block :: "py_lib \<Rightarrow> bytes \<Rightarrow> bytes" where
  "hmac_key_block L key =
     (let k = (if length key > 64 then sha256 L key else key)
      in k @ replicate (64 - length k) 0)"

text \<open>\<open>PBKDF2HMAC(algorithm, length, salt, iterations).derive(key_material)\<close>: the
  first \<open>length\<close> bytes of the blocks of PBKDF2, whose pseudorandom function is HMAC
  with the key material as its key.\<close>

definition pbkdf2_hmac ::
  "py_lib \<Rightarrow> hash_alg \<Rightarrow> nat \<Rightarrow> bytes \<Rightarrow> nat \<Rightarrow> bytes \<Rightarrow> bytes" where
  "pbkdf2_hmac L alg len s iterations key_material =
     map (pbkdf2_stream L alg s iterations (hmac_key_block L key_material)) [0..<len]"

text \<open>\<open>os.getenv(name, default)\<close>.\<close>

definition getenv_default :: "py_lib \<Rightarrow> string \<Rightarrow> string \<Rightarrow> string" where
  "getenv_default L name dflt = (case getenv L name of None \<Rightarrow> dflt | Some v \<Rightarrow> v)"

section \<open>crypto\_utils.py: class CryptoUtils\<close>

record CryptoUtils =
  salt :: bytes
  fernet_key :: bytes

text \<open>\<open>_derive_key\<close>, with \<open>self.salt\<close> as its argument: PBKDF2-HMAC-SHA256, 32
  bytes, 100000 iterations over the passphrase of the environment.\<close>

definition derive_key :: "py_lib \<Rightarrow> bytes \<Rightarrow> py_error + bytes" where
  "derive_key L self_salt =
     (case utf8_encode L (getenv_default L ''CRYPTO_PASSWORD'' ''kerberos-password'') of
        Inl e \<Rightarrow> Inl e
      | Inr password \<Rightarrow>
          Inr (urlsafe_b64encode L (pbkdf2_hmac L SHA256 32 self_salt 100000 password)))"

text \<open>\<open>__init__\<close>.\<close>

definition crypto_utils_init :: "py_lib \<Rightarrow> py_error + CryptoUtils" where
  "crypto_utils_init L =
     (case utf8_encode L (getenv_default L ''CRYPTO_SALT'' ''kerberos-salt'') of
        Inl e \<Rightarrow> Inl e
      | Inr s \<Rightarrow>
          (case derive_key L s of
             Inl e \<Rightarrow> Inl e
           | Inr k \<Rightarrow> Inr \<lparr>salt = s, fernet_key = k\<rparr>))"

text \<open>\<open>encrypt_data\<close>: the handler prints and re-raises, so an error passes through.
  \<open>Fernet.encrypt\<close> draws its IV from the random source.\<close>

definition encrypt_data :: "py_lib \<Rightarrow> CryptoUtils \<Rightarrow> world \<Rightarrow> string \<Rightarrow> (py_error + bytes) \<times> world" where
  "encrypt_data L self w data =
     (case utf8_encode L data of
        Inl e \<Rightarrow> (Inl e, w)
      | Inr b \<Rightarrow> (let (n, w') = draw w in (Inr (fernet_encrypt L (fernet_key self) n b), w')))"

text \<open>\<open>decrypt_data\<close>.\<close>

definition decrypt_data :: "py_lib \<Rightarrow> CryptoUtils \<Rightarrow> bytes \<Rightarrow> py_error + string" where
  "decrypt_data L self encrypted_data =
     (case fernet_decrypt L (fernet_key self) encrypted_data of
        Inl e \<Rightarrow> Inl e
      | Inr decrypted_bytes \<Rightarrow> utf8_decode L decrypted_bytes)"

text \<open>\<open>generate_session_key\<close>: \<open>secrets.token_urlsafe(32)\<close>.\<close>

definition generate_session_key :: "py_lib \<Rightarrow> world \<Rightarrow> string \<times> world" where
  "generate_session_key L w = (let (n, w') = draw w in (token_urlsafe L 32 n, w'))"




text \<open>\<open>aes_encrypt\<close>: a random IV of 16 bytes, the padded plaintext through
  AES-CBC.\<close>

definition aes_encrypt ::
  "py_lib \<Rightarrow> world \<Rightarrow> string \<Rightarrow> bytes \<Rightarrow> (py_error + bytes \<times> bytes) \<times> world" where
  "aes_encrypt L w plaintext key =
     (let (n, w') = draw w;
          iv = token_bytes L 16 n
      in case utf8_encode L plaintext of
           Inl e \<Rightarrow> (Inl e, w')
         | Inr b \<Rightarrow>
             (case aes_cbc_encrypt L key iv (pad_data b) of
                Inl e \<Rightarrow> (Inl e, w')
              | Inr ciphertext \<Rightarrow> (Inr (ciphertext, iv), w')))"

text \<open>\<open>aes_decrypt\<close>.\<close>

definition aes_decrypt :: "py_lib \<Rightarrow> bytes \<Rightarrow> bytes \<Rightarrow> bytes \<Rightarrow> py_error + string" where
  "aes_decrypt L ciphertext key iv =
     (case aes_cbc_decrypt L key iv ciphertext of
        Inl e \<Rightarrow> Inl e
      | Inr padded_plaintext \<Rightarrow>
          (case unpad_data padded_plaintext of
             Inl e \<Rightarrow> Inl e
           | Inr plaintext \<Rightarrow> utf8_decode L plaintext))"

section \<open>models/user.py: class User\<close>

text \<open>The attributes of a \<open>User\<close>, each with the prefix \<open>u_\<close>.\<close>

record User =
  u_id :: string
  u_username :: string
  u_password_hash :: bytes
  u_roles :: "string list"
  u_created_at :: int
  u_last_login :: "int option"
  u_login_count :: int
  u_is_active :: bool

text \<open>\<open>User.__init__\<close>: \<open>roles or ['user']\<close> replaces a missing or empty list, and
  \<open>created_at\<close> reads the clock.\<close>

definition user_init ::
  "py_lib \<Rightarrow> world \<Rightarrow> string \<Rightarrow> string \<Rightarrow> bytes \<Rightarrow> string list option \<Rightarrow> User \<times> world" where
  "user_init L w ident name pw_hash rs =
     (let (t, w') = datetime_now L w
      in (\<lparr>u_id = ident, u_username = name, u_password_hash = pw_hash,
           u_roles = (case rs of None \<Rightarrow> [''user'']
                      | Some r \<Rightarrow> if r = [] then [''user''] else r),
           u_created_at = t, u_last_login = None, u_login_count = 0,
           u_is_active = True\<rparr>, w'))"

section \<open>auth/kerberos\_auth.py: class KerberosAuth\<close>

record KerberosAuth =
  secret_key :: string
  crypto_utils :: CryptoUtils
  tgt_lifetime :: int
  service_ticket_lifetime :: int

text \<open>\<open>__init__\<close>.\<close>

definition kerberos_auth_init :: "py_lib \<Rightarrow> py_error + KerberosAuth" where
  "kerberos_auth_init L =
     (case crypto_utils_init L of
        Inl e \<Rightarrow> Inl e
      | Inr cu \<Rightarrow>
          Inr \<lparr>secret_key = getenv_default L ''KERBEROS_SECRET'' ''kerberos-secret-key'',
               crypto_utils = cu, tgt_lifetime = hours 8,
               service_ticket_lifetime = hours 2\<rparr>)"

text \<open>One entry of the dict \<open>mock_users\<close> of \<open>_get_user_by_username\<close>:
  \<open>User(id, username, bcrypt.hashpw(password.encode('utf-8'), bcrypt.gensalt()), roles)\<close>.
  The arguments are evaluated before \<open>User.__init__\<close> runs.\<close>

definition mock_user ::
  "py_lib \<Rightarrow> world \<Rightarrow> string \<Rightarrow> string \<Rightarrow> string \<Rightarrow> string list \<Rightarrow> (py_error + User) \<times> world" where
  "mock_user L w ident name password rs =
     (case utf8_encode L password of
        Inl e \<Rightarrow> (Inl e, w)
      | Inr pw \<Rightarrow>
          (let (n, w1) = draw w
           in case bcrypt_hashpw L pw (bcrypt_gensalt L n) of
                Inl e \<Rightarrow> (Inl e, w1)
              | Inr h \<Rightarrow> (let (u, w2) = user_init L w1 ident name h (Some rs)
                          in (Inr u, w2))))"

text \<open>\<open>_get_user_by_username\<close>: the three mock users are built anew at every call,
  then \<open>mock_users.get(username)\<close>.\<close>

definition get_user_by_username ::
  "py_lib \<Rightarrow> world \<Rightarrow> string \<Rightarrow> (py_error + User option) \<times> world" where
  "get_user_by_username L w name =
     (case mock_user L w ''1'' ''admin'' ''admin123'' [''admin'', ''user''] of
        (Inl e, w1) \<Rightarrow> (Inl e, w1)
      | (Inr admin, w1) \<Rightarrow>
          (case mock_user L w1 ''2'' ''user'' ''user123'' [''user''] of
             (Inl e, w2) \<Rightarrow> (Inl e, w2)
           | (Inr usr, w2) \<Rightarrow>
               (case mock_user L w2 ''3'' ''guest'' ''guest123'' [''guest''] of
                  (Inl e, w3) \<Rightarrow> (Inl e, w3)
                | (Inr guest, w3) \<Rightarrow>
                    (Inr (map_of [(''admin'', admin), (''user'', usr), (''guest'', guest)] name),
                     w3))))"

text \<open>\<open>_verify_password\<close> of \<open>KerberosAuth\<close> (bcrypt; \<open>verify_password\<close> above is
  the PBKDF2 one of \<open>CryptoUtils\<close>): every exception gives False.\<close>

definition auth_verify_password :: "py_lib \<Rightarrow> string \<Rightarrow> bytes \<Rightarrow> bool" where
  "auth_verify_password L password pw_hash =
     (case (case utf8_encode L password of
              Inl e \<Rightarrow> Inl e
            | Inr pw \<Rightarrow> bcrypt_checkpw L pw pw_hash) of
        Inl e \<Rightarrow> False
      | Inr ok \<Rightarrow> ok)"

text \<open>\<open>authenticate_user\<close>: \<open>if user and self._verify_password(...)\<close> returns the
  user, everything else, the handler of every exception included, returns None.\<close>

definition authenticate_user ::
  "py_lib \<Rightarrow> KerberosAuth \<Rightarrow> world \<Rightarrow> string \<Rightarrow> string \<Rightarrow> User option \<times> world" where
  "authenticate_user L self w name password =
     (case get_user_by_username L w name of
        (Inl e, w') \<Rightarrow> (None, w')
      | (Inr None, w') \<Rightarrow> (None, w')
      | (Inr (Some user), w') \<Rightarrow>
          (if auth_verify_password L password (u_password_hash user)
           then (Some user, w') else (None, w')))"

text \<open>The lines that \<open>generate_tgt\<close> and \<open>generate_service_ticket\<close> share:
  \<open>encrypted = self.crypto_utils.encrypt_data(json.dumps(data))\<close> and
  \<open>base64.b64encode(encrypted).decode('utf-8')\<close>.\<close>

definition seal_ticket ::
  "py_lib \<Rightarrow> CryptoUtils \<Rightarrow> world \<Rightarrow> json \<Rightarrow> (py_error + string) \<times> world" where
  "seal_ticket L cu w data =
     (case encrypt_data L cu w (json_dumps L data) of
        (Inl e, w') \<Rightarrow> (Inl e, w')
      | (Inr encrypted, w') \<Rightarrow>
          (case utf8_decode L (b64encode L encrypted) of
             Inl e \<Rightarrow> (Inl e, w')
           | Inr ticket \<Rightarrow> (Inr ticket, w')))"

text \<open>The lines that \<open>validate_service_ticket\<close>, \<open>_validate_tgt\<close> and
  \<open>get_ticket_info\<close> share:
  \<open>encrypted_data = base64.b64decode(ticket.encode('utf-8'))\<close>,
  \<open>decrypted_data = self.crypto_utils.decrypt_data(encrypted_data)\<close> and
  \<open>json.loads(decrypted_data)\<close>.\<close>

definition decode_ticket :: "py_lib \<Rightarrow> CryptoUtils \<Rightarrow> string \<Rightarrow> py_error + json" where
  "decode_ticket L cu ticket =
     (case utf8_encode L ticket of
        Inl e \<Rightarrow> Inl e
      | Inr b \<Rightarrow>
          (case b64decode L b of
             Inl e \<Rightarrow> Inl e
           | Inr encrypted_data \<Rightarrow>
               (case decrypt_data L cu encrypted_data of
                  Inl e \<Rightarrow> Inl e
                | Inr decrypted_data \<Rightarrow> json_loads L decrypted_data)))"

text \<open>\<open>datetime.fromisoformat(v)\<close> on a decoded value: TypeError unless it is a
  string.\<close>

definition datetime_fromisoformat :: "py_lib \<Rightarrow> json \<Rightarrow> py_error + datetime" where
  "datetime_fromisoformat L v = (case v of JStr s \<Rightarrow> fromisoformat L s | _ \<Rightarrow> Inl TypeError)"

text \<open>The expiry check that \<open>validate_service_ticket\<close> and \<open>_validate_tgt\<close> share:
  \<open>expires_at = datetime.fromisoformat(ticket_data['expires_at'])\<close>, then the test
  \<open>datetime.now() > expires_at\<close>. The clock is read only when \<open>expires_at\<close> was
  parsed.\<close>

definition ticket_expired :: "py_lib \<Rightarrow> world \<Rightarrow> json \<Rightarrow> (py_error + bool) \<times> world" where
  "ticket_expired L w ticket_data =
     (case subscript ticket_data ''expires_at'' of
        Inl e \<Rightarrow> (Inl e, w)
      | Inr v \<Rightarrow>
          (case datetime_fromisoformat L v of
             Inl e \<Rightarrow> (Inl e, w)
           | Inr expires_at \<Rightarrow>
               (let (t, w') = datetime_now L w
                in (datetime_gt (Naive t) expires_at, w'))))"

text \<open>The dict \<open>tgt_data\<close> of \<open>generate_tgt\<close>: the literal is evaluated in the order
  of its entries, so the clock is read twice, the lifetime is added to the second
  reading (OverflowError past \<open>datetime.max\<close>), then the session key is drawn.\<close>

definition tgt_data_dict ::
  "py_lib \<Rightarrow> KerberosAuth \<Rightarrow> world \<Rightarrow> string \<Rightarrow> string \<Rightarrow> (py_error + json) \<times> world" where
  "tgt_data_dict L self w user_id name =
     (let (t1, w1) = datetime_now L w;
          (t2, w2) = datetime_now L w1
      in case datetime_add t2 (tgt_lifetime self) of
           Inl e \<Rightarrow> (Inl e, w2)
         | Inr expires \<Rightarrow>
             (let (session_key, w3) = generate_session_key L w2
              in (Inr (JDict
                    [(''user_id'', JStr user_id),
                     (''username'', JStr name),
                     (''issued_at'', JStr (isoformat L t1)),
                     (''expires_at'', JStr (isoformat L expires)),
                     (''session_key'', JStr session_key),
                     (''permissions'',
                        JList [JStr ''read'', JStr ''write'', JStr ''execute''])]),
                  w3)))"

text \<open>\<open>generate_tgt\<close>: the handler prints and re-raises.\<close>

definition generate_tgt ::
  "py_lib \<Rightarrow> KerberosAuth \<Rightarrow> world \<Rightarrow> string \<Rightarrow> string \<Rightarrow> (py_error + string) \<times> world" where
  "generate_tgt L self w user_id name =
     (case tgt_data_dict L self w user_id name of
        (Inl e, w2) \<Rightarrow> (Inl e, w2)
      | (Inr data, w3) \<Rightarrow> seal_ticket L (crypto_utils self) w3 data)"

text \<open>\<open>_validate_tgt\<close>: None when the TGT does not decode or has expired.\<close>

definition validate_tgt ::
  "py_lib \<Rightarrow> KerberosAuth \<Rightarrow> world \<Rightarrow> string \<Rightarrow> json option \<times> world" where
  "validate_tgt L self w tgt =
     (case decode_ticket L (crypto_utils self) tgt of
        Inl e \<Rightarrow> (None, w)
      | Inr tgt_data \<Rightarrow>
          (case ticket_expired L w tgt_data of
             (Inl e, w') \<Rightarrow> (None, w')
           | (Inr expired, w') \<Rightarrow> (if expired then None else Some tgt_data, w')))"

text \<open>The dict \<open>service_ticket_data\<close> of \<open>generate_service_ticket\<close>: a TGT without
  \<open>user_id\<close> or \<open>username\<close> raises KeyError before the clock is read; the lifetime
  is added to the second reading (OverflowError past \<open>datetime.max\<close>);
  \<open>tgt_data.get('permissions', [])\<close> comes last.\<close>

definition service_ticket_data_dict ::
  "py_lib \<Rightarrow> KerberosAuth \<Rightarrow> world \<Rightarrow> json \<Rightarrow> string \<Rightarrow> (py_error + json) \<times> world" where
  "service_ticket_data_dict L self w0 tgt_data service_name =
     (case subscript tgt_data ''user_id'' of
        Inl e \<Rightarrow> (Inl e, w0)
      | Inr uid \<Rightarrow>
          (case subscript tgt_data ''username'' of
             Inl e \<Rightarrow> (Inl e, w0)
           | Inr uname \<Rightarrow>
               (let (t1, w1) = datetime_now L w0;
                    (t2, w2) = datetime_now L w1
                in case datetime_add t2 (service_ticket_lifetime self) of
                     Inl e \<Rightarrow> (Inl e, w2)
                   | Inr expires \<Rightarrow>
                       (let (session_key, w3) = generate_session_key L w2
                        in case dict_get tgt_data ''permissions'' (JList []) of
                             Inl e \<Rightarrow> (Inl e, w3)
                           | Inr perms \<Rightarrow>
                               (Inr (JDict
                                  [(''user_id'', uid),
                                   (''username'', uname),
                                   (''service_name'', JStr service_name),
                                   (''issued_at'', JStr (isoformat L t1)),
                                   (''expires_at'', JStr (isoformat L expires)),
                                   (''session_key'', JStr session_key),
                                   (''permissions'', perms)]), w3)))))"

text \<open>\<open>generate_service_ticket\<close>: \<open>raise ValueError("Invalid TGT")\<close> when
  \<open>_validate_tgt\<close> returns None or a false value. The handler prints and re-raises.\<close>

definition generate_service_ticket ::
  "py_lib \<Rightarrow> KerberosAuth \<Rightarrow> world \<Rightarrow> string \<Rightarrow> string \<Rightarrow> (py_error + string) \<times> world" where
  "generate_service_ticket L self w tgt service_name =
     (case validate_tgt L self w tgt of
        (None, w0) \<Rightarrow> (Inl ValueError, w0)
      | (Some tgt_data, w0) \<Rightarrow>
          (if \<not> truthy tgt_data then (Inl ValueError, w0)
           else case service_ticket_data_dict L self w0 tgt_data service_name of
                  (Inl e, w3) \<Rightarrow> (Inl e, w3)
                | (Inr data, w3) \<Rightarrow> seal_ticket L (crypto_utils self) w3 data))"

text \<open>\<open>validate_service_ticket\<close>: False on every exception and when the clock is
  later than \<open>expires_at\<close>.\<close>

definition validate_service_ticket ::
  "py_lib \<Rightarrow> KerberosAuth \<Rightarrow> world \<Rightarrow> string \<Rightarrow> bool \<times> world" where
  "validate_service_ticket L self w service_ticket =
     (case decode_ticket L (crypto_utils self) service_ticket of
        Inl e \<Rightarrow> (False, w)
      | Inr ticket_data \<Rightarrow>
          (case ticket_expired L w ticket_data of
             (Inl e, w') \<Rightarrow> (False, w')
           | (Inr expired, w') \<Rightarrow> (if expired then False else True, w')))"

text \<open>\<open>get_ticket_info\<close>: the returned dict, or None on every exception. It does not
  read the clock.\<close>

definition ticket_info :: "json \<Rightarrow> py_error + json" where
  "ticket_info ticket_data =
     (case dict_get ticket_data ''username'' JNull of
        Inl e \<Rightarrow> Inl e
      | Inr v1 \<Rightarrow>
     (case dict_get ticket_data ''service_name'' JNull of
        Inl e \<Rightarrow> Inl e
      | Inr v2 \<Rightarrow>
     (case dict_get ticket_data ''issued_at'' JNull of
        Inl e \<Rightarrow> Inl e
      | Inr v3 \<Rightarrow>
     (case dict_get ticket_data ''expires_at'' JNull of
        Inl e \<Rightarrow> Inl e
      | Inr v4 \<Rightarrow>
     (case dict_get ticket_data ''permissions'' (JList []) of
        Inl e \<Rightarrow> Inl e
      | Inr v5 \<Rightarrow>
          Inr (JDict [(''username'', v1), (''service_name'', v2), (''issued_at'', v3),
                      (''expires_at'', v4), (''permissions'', v5)]))))))"

definition get_ticket_info :: "py_lib \<Rightarrow> KerberosAuth \<Rightarrow> string \<Rightarrow> json option" where
  "get_ticket_info L self ticket =
     (case decode_ticket L (crypto_utils self) ticket of
        Inl e \<Rightarrow> None
      | Inr ticket_data \<Rightarrow>
          (case ticket_info ticket_data of Inl e \<Rightarrow> None | Inr info \<Rightarrow> Some info))"

section \<open>Consistent PKCS7 padding\<close>

text \<open>What PKCS7 asks of a padded plaintext of AES: whole blocks of 16 bytes, the last
  byte \<open>n\<close> between 1 and 16, and each of the last \<open>n\<close> bytes equal to \<open>n\<close>.\<close>

definition pkcs7_consistent :: "bytes \<Rightarrow> bool" where
  "pkcs7_consistent pd \<longleftrightarrow>
     pd \<noteq> [] \<and> length pd mod 16 = 0 \<and> 1 \<le> unat (last pd) \<and> unat (last pd) \<le> 16 \<and>
     list_all (\<lambda>b. b = last pd) (drop (length pd - unat (last pd)) pd)"

section \<open>What the libraries promise\<close>

text \<open>The properties of the library functions that the theorems below name, each
  for the arguments it is used at. \<open>Fernet.decrypt\<close> returns what \<open>Fernet.encrypt\<close>
  sealed under the same key; UTF-8 decoding undoes encoding and the strict decoder has
  only one text for a byte string; \<open>b64decode\<close> undoes \<open>b64encode\<close>;
  \<open>json.loads\<close> returns the value \<open>json.dumps\<close> wrote; \<open>fromisoformat\<close> reads what
  \<open>isoformat\<close> wrote, as a naive datetime.\<close>

definition fernet_roundtrip :: "py_lib \<Rightarrow> bool" where
  "fernet_roundtrip L \<longleftrightarrow> (\<forall>k n b. fernet_decrypt L k (fernet_encrypt L k n b) = Inr b)"

definition utf8_roundtrip :: "py_lib \<Rightarrow> bool" where
  "utf8_roundtrip L \<longleftrightarrow>
     (\<forall>s b. utf8_encode L s = Inr b \<longrightarrow> utf8_decode L b = Inr s) \<and>
     (\<forall>s b. utf8_decode L b = Inr s \<longrightarrow> utf8_encode L s = Inr b)"

definition b64_roundtrip :: "py_lib \<Rightarrow> bool" where
  "b64_roundtrip L \<longleftrightarrow> (\<forall>b. b64decode L (b64encode L b) = Inr b)"

definition json_roundtrip :: "py_lib \<Rightarrow> json \<Rightarrow> bool" where
  "json_roundtrip L data \<longleftrightarrow> json_loads L (json_dumps L data) = Inr data"

definition iso_roundtrip :: "py_lib \<Rightarrow> int \<Rightarrow> bool" where
  "iso_roundtrip L t \<longleftrightarrow> fromisoformat L (isoformat L t) = Inr (Naive t)"


section \<open>A small instance of the libraries\<close>

text \<open>An instance of \<^typ>\<open>py_lib\<close> on which the model runs: text and bytes correspond
  character by character, base64 is the identity, the cipher puts one byte of its
  random draw in front of the plaintext, the key derivation adds the bytes of the salt
  to the bytes of the key block, every byte of a random draw is the number of the draw,
  times are written in decimal, the clock advances by one microsecond at each reading,
  and JSON texts are the entries of a code book \<open>book\<close>, the \<open>i\<close>-th entry written as
  \<open>i + 1\<close> letters.\<close>

definition byte_at :: "bytes \<Rightarrow> nat \<Rightarrow> byte" where
  "byte_at bs i = (if i < length bs then bs ! i else 0)"

function show_nat :: "nat \<Rightarrow> string" where
  "show_nat n =
     (if n < 10 then [char_of (48 + n)]
      else show_nat (n div 10) @ [char_of (48 + n mod 10)])"
  by pat_completeness auto
termination
  by (relation "measure id") auto

definition show_int :: "int \<Rightarrow> string" where
  "show_int i = (if i < 0 then CHR ''-'' # show_nat (nat (- i)) else show_nat (nat i))"

definition is_digit :: "char \<Rightarrow> bool" where
  "is_digit c \<longleftrightarrow> 48 \<le> (of_char c :: nat) \<and> (of_char c :: nat) \<le> 57"

definition read_nat :: "string \<Rightarrow> nat" where
  "read_nat s = foldl (\<lambda>a c. 10 * a + (of_char c - 48)) 0 s"

definition read_int :: "string \<Rightarrow> py_error + int" where
  "read_int s =
     (case s of
        [] \<Rightarrow> Inl ValueError
      | c # r \<Rightarrow>
          if c = CHR ''-'' then
            (if r \<noteq> [] \<and> list_all is_digit r then Inr (- int (read_nat r)) else Inl ValueError)
          else if list_all is_digit s then Inr (int (read_nat s))
          else Inl ValueError)"

fun book_index :: "json list \<Rightarrow> json \<Rightarrow> nat" where
  "book_index [] j = 0"
| "book_index (x # xs) j = (if x = j then 0 else Suc (book_index xs j))"

definition book_dumps :: "json list \<Rightarrow> json \<Rightarrow> string" where
  "book_dumps book j = replicate (Suc (book_index book j)) CHR ''j''"

definition book_loads :: "json list \<Rightarrow> string \<Rightarrow> py_error + json" where
  "book_loads book s =
     (if s \<noteq> [] \<and> list_all (\<lambda>c. c = CHR ''j'') s \<and> length s \<le> length book
      then Inr (book ! (length s - 1)) else Inl JSONDecodeError)"

definition sample_lib :: "json list \<Rightarrow> int \<Rightarrow> py_lib" where
  "sample_lib book t0 =
     \<lparr>getenv = (\<lambda>name. None),
      utf8_encode = (\<lambda>s. Inr (map byte_of_char s)),
      utf8_decode = (\<lambda>b. Inr (map char_of_byte b)),
      b64encode = (\<lambda>b. b),
      b64decode = (\<lambda>b. Inr b),
      urlsafe_b64encode = (\<lambda>b. b),
      sha256 = (\<lambda>b. take 32 (b @ replicate 32 0)),
      pbkdf2_stream = (\<lambda>alg s iterations key_block i. byte_at key_block i + byte_at s i),
      fernet_encrypt = (\<lambda>k n b. of_nat n # b),
      fernet_decrypt = (\<lambda>k c. case c of [] \<Rightarrow> Inl InvalidToken | iv # b \<Rightarrow> Inr b),
      aes_cbc_encrypt = (\<lambda>k iv b. Inr b),
      aes_cbc_decrypt = (\<lambda>k iv c. Inr c),
      token_urlsafe = (\<lambda>nbytes n. show_nat n),
      random_byte = (\<lambda>n i. of_nat n),
      json_dumps = book_dumps book,
      json_loads = book_loads book,
      now_at = (\<lambda>n. t0 + int n),
      isoformat = show_int,
      fromisoformat = (\<lambda>s. case read_int s of Inl e \<Rightarrow> Inl e | Inr t \<Rightarrow> Inr (Naive t)),
      bcrypt_gensalt = (\<lambda>n. [of_nat n]),
      bcrypt_hashpw = (\<lambda>pw s. Inr (s @ pw)),
      bcrypt_checkpw = (\<lambda>pw h. Inr (drop 1 h = pw))\<rparr>"

definition sample_world :: world where
  "sample_world = \<lparr>clock_reads = 0, rand_draws = 0\<rparr>"

definition sample_cu :: CryptoUtils where
  "sample_cu = \<lparr>salt = map byte_of_char ''kerberos-salt'',
       fernet_key = pbkdf2_hmac (sample_lib [] 0) SHA256 32
         (map byte_of_char ''kerberos-salt'') 100000
         (map byte_of_char ''kerberos-password'')\<rparr>"

definition sample_auth :: KerberosAuth where
  "sample_auth = \<lparr>secret_key = ''kerberos-secret-key'', crypto_utils = sample_cu,
       tgt_lifetime = hours 8, service_ticket_lifetime = hours 2\<rparr>"

text \<open>A run of the model on that instance: the envelope of the ticket-granting ticket
  that \<open>generate_tgt\<close> builds for the administrator when the clock starts at 1000 and
  the envelope of a service ticket issued from it; three more values that a ticket can
  seal: a list, a dict with \<open>expires_at\<close> alone, and the envelope of a ticket-granting
  ticket that expires at \<open>datetime.max\<close>; the code book that holds the five, and the
  instance with this code book. The other instances differ in their clocks only:
  \<open>sample_at_expiry\<close> starts at the instant the first ticket-granting ticket expires,
  \<open>sample_expired\<close> one microsecond later, \<open>sample_at_end\<close> eight hours before
  \<open>datetime.max\<close>, and \<open>sample_before_end\<close> two hours and one microsecond before
  it.\<close>

definition sample_tgt_data :: json where
  "sample_tgt_data = JDict
     [(''user_id'', JStr ''1''),
      (''username'', JStr ''admin''),
      (''issued_at'', JStr ''1000''),
      (''expires_at'', JStr ''28800001001''),
      (''session_key'', JStr ''0''),
      (''permissions'', JList [JStr ''read'', JStr ''write'', JStr ''execute''])]"

definition sample_service_data :: json where
  "sample_service_data = JDict
     [(''user_id'', JStr ''1''),
      (''username'', JStr ''admin''),
      (''service_name'', JStr ''reporting-api''),
      (''issued_at'', JStr ''1003''),
      (''expires_at'', JStr ''7200001004''),
      (''session_key'', JStr ''2''),
      (''permissions'', JList [JStr ''read'', JStr ''write'', JStr ''execute''])]"

definition sample_list_data :: json where
  "sample_list_data = JList [JInt 1, JInt 2]"

definition sample_bare_data :: json where
  "sample_bare_data = JDict [(''expires_at'', JStr ''28800001001'')]"

definition sample_last_tgt_data :: json where
  "sample_last_tgt_data = JDict
     [(''user_id'', JStr ''1''),
      (''username'', JStr ''admin''),
      (''issued_at'', JStr ''315537868799999999''),
      (''expires_at'', JStr ''315537897599999999''),
      (''session_key'', JStr ''0''),
      (''permissions'', JList [JStr ''read'', JStr ''write'', JStr ''execute''])]"

definition sample_book :: "json list" where
  "sample_book = [sample_tgt_data, sample_service_data, sample_list_data,
     sample_bare_data, sample_last_tgt_data]"

definition sample :: py_lib where
  "sample = sample_lib sample_book 1000"

definition sample_at_expiry :: py_lib where
  "sample_at_expiry = sample_lib sample_book 28800001001"

definition sample_expired :: py_lib where
  "sample_expired = sample_lib sample_book 28800001002"

definition sample_at_end :: py_lib where
  "sample_at_end = sample_lib sample_book (datetime_max - hours 8)"

definition sample_before_end :: py_lib where
  "sample_before_end = sample_lib sample_book (datetime_max - hours 2 - 1)"

text \<open>The administrator and the guest, as \<open>_get_user_by_username\<close> builds them in
  the sample run.\<close>

definition sample_admin :: User where
  "sample_admin = \<lparr>u_id = ''1'', u_username = ''admin'',
      u_password_hash = 0 # map byte_of_char ''admin123'',
      u_roles = [''admin'', ''user''], u_created_at = 1000,
      u_last_login = None, u_login_count = 0, u_is_active = True\<rparr>"

definition sample_guest :: User where
  "sample_guest = \<lparr>u_id = ''3'', u_username = ''guest'',
      u_password_hash = 2 # map byte_of_char ''guest123'',
      u_roles = [''guest''], u_created_at = 1002,
      u_last_login = None, u_login_count = 0, u_is_active = True\<rparr>"

section \<open>Padding round trip\<close>

lemma padding_length_range:
  "1 \<le> 16 - (n mod 16 :: nat) \<and> 16 - (n mod 16) \<le> 16"
  by arith

lemma unat_byte_of_nat: "k < 256 \<Longrightarrow> unat (of_nat k :: byte) = k"
  by (simp add: unat_of_nat take_bit_nat_eq_self)

lemma unat_padding_byte:
  "unat (of_nat (16 - (n mod 16 :: nat)) :: byte) = 16 - (n mod 16)"
proof -
  have "16 - (n mod 16) < (256::nat)" by arith
  then show ?thesis by (rule unat_byte_of_nat)
qed

lemma length_pad_data: "length (pad_data d) = length d + (16 - length d mod 16)"
  by (simp add: pad_data_def Let_def)

lemma last_pad_data: "last (pad_data d) = of_nat (16 - length d mod 16)"
proof -
  have "replicate (16 - length d mod 16) (of_nat (16 - length d mod 16) :: byte) \<noteq> []"
    using padding_length_range [of "length d"] by auto
  then show ?thesis by (simp add: pad_data_def Let_def)
qed

lemma unpad_data_pad_data: "unpad_data (pad_data d) = Inr d"
proof -
  let ?p = "16 - length d mod 16"
  have r: "1 \<le> ?p" using padding_length_range [of "length d"] by auto
  have l: "length (pad_data d) = length d + ?p" by (rule length_pad_data)
  have ne: "pad_data d \<noteq> []" using l r by auto
  have u: "unat (last (pad_data d)) = ?p"
    by (simp only: last_pad_data unat_padding_byte)
  have t: "take (length (pad_data d) - ?p) (pad_data d) = d"
    by (simp add: l) (simp add: pad_data_def Let_def)
  have z: "?p \<noteq> 0" using r by arith
  have "slice_to_neg (pad_data d) ?p = d"
    unfolding slice_to_neg_def using z t by (simp only: if_False)
  then show ?thesis using ne by (simp add: unpad_data_def Let_def u)
qed

text \<open>C10: for every byte string \<open>d\<close>, \<open>_pad_data(d)\<close> has a length that is a
  positive multiple of 16 and strictly greater than \<open>len(d)\<close>, and
  \<open>_unpad_data(_pad_data(d))\<close> returns \<open>d\<close>.\<close>

theorem pad_unpad_roundtrip:
  "length (pad_data d) mod 16 = 0 \<and> 0 < length (pad_data d)
   \<and> length d < length (pad_data d) \<and> unpad_data (pad_data d) = Inr d"
proof -
  let ?p = "16 - length d mod 16"
  have r: "1 \<le> ?p" using padding_length_range [of "length d"] by auto
  have l: "length (pad_data d) = length d + ?p" by (rule length_pad_data)
  have m: "(length d + ?p) mod 16 = 0" by presburger
  have "length (pad_data d) mod 16 = 0" using l m by (simp only:)
  moreover have "0 < length (pad_data d)" "length d < length (pad_data d)"
    using l r by arith+
  ultimately show ?thesis using unpad_data_pad_data [of d] by blast
qed

section \<open>The small instance keeps the promises\<close>

lemma char_byte: "char_of_byte (byte_of_char c) = c"
  unfolding char_of_byte_def byte_of_char_def
  by (simp add: unat_of_nat take_bit_nat_eq_self)

lemma byte_char: "byte_of_char (char_of_byte b) = b"
proof -
  have "unat b < 256" using unsigned_less [of b, where ?'a = nat] by simp
  then show ?thesis unfolding char_of_byte_def byte_of_char_def by simp
qed

lemma map_char_byte: "map (char_of_byte \<circ> byte_of_char) s = s"
  by (induction s) (simp_all add: char_byte)

lemma map_byte_char: "map (byte_of_char \<circ> char_of_byte) b = b"
  by (induction b) (simp_all add: byte_char)

lemma sample_fernet: "fernet_roundtrip (sample_lib book t0)"
  by (simp add: fernet_roundtrip_def sample_lib_def)

lemma sample_utf8: "utf8_roundtrip (sample_lib book t0)"
  by (auto simp add: utf8_roundtrip_def sample_lib_def map_char_byte map_byte_char)

lemma sample_b64: "b64_roundtrip (sample_lib book t0)"
  by (simp add: b64_roundtrip_def sample_lib_def)

lemma book_index_less: "j \<in> set book \<Longrightarrow> book_index book j < length book"
  by (induction book) auto

lemma book_index_nth: "j \<in> set book \<Longrightarrow> book ! book_index book j = j"
  by (induction book) auto

lemma sample_json: "j \<in> set book \<Longrightarrow> json_roundtrip (sample_lib book t0) j"
  using book_index_less [of j book] book_index_nth [of j book]
  by (simp add: json_roundtrip_def sample_lib_def book_dumps_def book_loads_def list_all_iff)

declare show_nat.simps [simp del]

lemma digit_char: "d < 10 \<Longrightarrow> (of_char (char_of (48 + d :: nat)) :: nat) = 48 + d"
  by simp

lemma show_nat_digits: "list_all is_digit (show_nat n)"
proof (induction n rule: show_nat.induct)
  case (1 n)
  show ?case
  proof (cases "n < 10")
    case True
    then show ?thesis by (subst show_nat.simps) (simp add: is_digit_def)
  next
    case False
    have "n mod 10 < 10" by simp
    then have "is_digit (char_of (48 + n mod 10))"
      unfolding is_digit_def by (simp only: digit_char) simp
    with False 1 show ?thesis by (subst show_nat.simps) simp
  qed
qed

lemma show_nat_nonempty: "show_nat n \<noteq> []"
  by (subst show_nat.simps) simp

lemma read_nat_snoc: "read_nat (s @ [c]) = 10 * read_nat s + (of_char c - 48)"
  by (simp add: read_nat_def)

lemma read_show_nat: "read_nat (show_nat n) = n"
proof (induction n rule: show_nat.induct)
  case (1 n)
  show ?case
  proof (cases "n < 10")
    case True
    then show ?thesis by (subst show_nat.simps) (simp add: read_nat_def)
  next
    case False
    have d: "(of_char (char_of (48 + n mod 10)) :: nat) = 48 + n mod 10"
      by (rule digit_char) simp
    have "read_nat (show_nat n) = 10 * read_nat (show_nat (n div 10)) + (n mod 10)"
      using False by (subst show_nat.simps) (simp add: read_nat_snoc d del: of_char_of)
    with False 1 show ?thesis by simp
  qed
qed

lemma show_nat_no_minus: "hd (show_nat n) \<noteq> CHR ''-''"
proof -
  have "is_digit (hd (show_nat n))"
    using show_nat_digits [of n] show_nat_nonempty [of n]
    by (cases "show_nat n") simp_all
  then show ?thesis by (auto simp: is_digit_def)
qed

lemma read_show_int: "read_int (show_int i) = Inr i"
proof (cases "i < 0")
  case True
  then show ?thesis
    by (simp add: show_int_def read_int_def show_nat_digits show_nat_nonempty read_show_nat)
next
  case False
  obtain c r where cr: "show_nat (nat i) = c # r"
    using show_nat_nonempty [of "nat i"] by (cases "show_nat (nat i)") auto
  have "c \<noteq> CHR ''-''" using show_nat_no_minus [of "nat i"] cr by simp
  moreover have "list_all is_digit (c # r)" using show_nat_digits [of "nat i"] cr by simp
  moreover have "read_nat (c # r) = nat i" using read_show_nat [of "nat i"] cr by simp
  ultimately show ?thesis using False cr
    by (simp add: show_int_def read_int_def)
qed

lemma sample_iso: "iso_roundtrip (sample_lib book t0) t"
  by (simp add: iso_roundtrip_def sample_lib_def read_show_int)

section \<open>Removing the padding\<close>

text \<open>C3, as the code has it: \<open>_unpad_data\<close> checks no padding byte. On the empty byte
  string it raises IndexError; on every other input it returns a result, and when the
  last byte \<open>n\<close> is at least 1 the result is the input without its last \<open>n\<close> bytes,
  whatever those bytes are; \<open>aes_decrypt\<close> then decodes that result.\<close>

theorem unpad_data_no_validation:
  "(pd = [] \<longrightarrow> unpad_data pd = Inl IndexError) \<and>
   (pd \<noteq> [] \<longrightarrow> (\<exists>r. unpad_data pd = Inr r \<and>
      (1 \<le> unat (last pd) \<longrightarrow> r = take (length pd - unat (last pd)) pd))) \<and>
   (aes_cbc_decrypt L key iv c = Inr pd \<longrightarrow> pd \<noteq> [] \<longrightarrow> 1 \<le> unat (last pd) \<longrightarrow>
      aes_decrypt L c key iv = utf8_decode L (take (length pd - unat (last pd)) pd))"
  by (simp add: unpad_data_def slice_to_neg_def Let_def aes_decrypt_def)

theorem unpad_data_no_validation_witness:
  "unpad_data [] = Inl IndexError \<and> unpad_data [5, 5, 2] = Inr [5] \<and>
   aes_decrypt sample (replicate 13 65 @ [7, 9, 3]) [] [] = Inr (replicate 13 CHR ''A'')"
proof -
  have a: "aes_cbc_decrypt sample [] [] (replicate 13 65 @ [7, 9, 3])
      = Inr (replicate 13 65 @ [7, 9, 3])"
    by (simp add: sample_def sample_lib_def)
  have "char_of_byte 65 = CHR ''A''"
    by (simp add: char_of_byte_def char_of_def bit_Suc_0_iff)
  then have u: "utf8_decode sample (replicate 13 65) = Inr (replicate 13 CHR ''A'')"
    by (simp add: sample_def sample_lib_def)
  show ?thesis
    using unpad_data_no_validation [of "[]"] unpad_data_no_validation [of "[5, 5, 2]"]
      unpad_data_no_validation [of "replicate 13 65 @ [7, 9, 3]" sample "[]" "[]"
        "replicate 13 65 @ [7, 9, 3]"] a u
    by simp
qed

text \<open>C3, as the specification has it, fails: a block of 16 bytes that ends in
  7, 9, 3 is not consistently padded, and \<open>_unpad_data\<close> returns its first 13 bytes.\<close>

theorem unpad_data_accepts_inconsistent:
  "\<not> pkcs7_consistent (replicate 13 65 @ [7, 9, 3]) \<and>
   unpad_data (replicate 13 65 @ [7, 9, 3]) = Inr (replicate 13 65)"
  by (simp add: pkcs7_consistent_def unpad_data_def slice_to_neg_def)

section \<open>Encryption round trip\<close>

lemma encrypt_data_Inr:
  "encrypt_data L cu w s = (Inr c, w') \<longleftrightarrow>
     (\<exists>b. utf8_encode L s = Inr b \<and> c = fernet_encrypt L (fernet_key cu) (rand_draws w) b
        \<and> w' = w\<lparr>rand_draws := Suc (rand_draws w)\<rparr>)"
  by (cases "utf8_encode L s") (auto simp: encrypt_data_def draw_def)

lemma utf8_decode_encoded:
  "utf8_roundtrip L \<Longrightarrow> utf8_encode L s = Inr b \<Longrightarrow> utf8_decode L b = Inr s"
  unfolding utf8_roundtrip_def by blast

lemma utf8_encode_decoded:
  "utf8_roundtrip L \<Longrightarrow> utf8_decode L b = Inr s \<Longrightarrow> utf8_encode L s = Inr b"
  unfolding utf8_roundtrip_def by blast

lemma decrypt_data_encrypt_data:
  assumes "fernet_roundtrip L" and "utf8_roundtrip L"
    and "encrypt_data L cu w s = (Inr c, w')"
  shows "decrypt_data L cu c = Inr s"
proof -
  from assms(3) obtain b where b: "utf8_encode L s = Inr b"
    and c: "c = fernet_encrypt L (fernet_key cu) (rand_draws w) b"
    unfolding encrypt_data_Inr by blast
  have "fernet_decrypt L (fernet_key cu) c = Inr b"
    using assms(1) c by (simp add: fernet_roundtrip_def)
  moreover have "utf8_decode L b = Inr s"
    using assms(2) b by (rule utf8_decode_encoded)
  ultimately show ?thesis by (simp add: decrypt_data_def)
qed

text \<open>C6: under the process key, \<open>decrypt_data\<close> returns the plaintext that
  \<open>encrypt_data\<close> sealed. For every string that UTF-8 can encode (a serialised
  envelope is ASCII), \<open>encrypt_data\<close> returns a ciphertext, and \<open>decrypt_data\<close> of
  that ciphertext is the string; the libraries are asked for their round trips only.\<close>

theorem encrypt_decrypt_roundtrip:
  assumes "fernet_roundtrip L" and "utf8_roundtrip L" and "utf8_encode L s = Inr b"
  shows "\<exists>c w'. encrypt_data L cu w s = (Inr c, w') \<and> decrypt_data L cu c = Inr s"
proof -
  obtain c w' where e: "encrypt_data L cu w s = (Inr c, w')"
    using assms(3) unfolding encrypt_data_Inr by blast
  then show ?thesis using decrypt_data_encrypt_data [OF assms(1,2) e] by blast
qed

theorem encrypt_decrypt_roundtrip_witness:
  "fernet_roundtrip sample \<and> utf8_roundtrip sample \<and>
   (\<exists>c w'. encrypt_data sample sample_cu sample_world ''{}'' = (Inr c, w') \<and>
      decrypt_data sample sample_cu c = Inr ''{}'')"
proof -
  have f: "fernet_roundtrip sample" unfolding sample_def by (rule sample_fernet)
  have u: "utf8_roundtrip sample" unfolding sample_def by (rule sample_utf8)
  have e: "utf8_encode sample ''{}'' = Inr (map byte_of_char ''{}'')"
    by (simp add: sample_def sample_lib_def)
  show ?thesis
    using f u encrypt_decrypt_roundtrip [OF f u e, of sample_cu sample_world] by blast
qed

text \<open>The AES path: when the cipher of the library decrypts what it encrypted,
  \<open>aes_decrypt\<close> returns the plaintext that \<open>aes_encrypt\<close> was given.\<close>

lemma aes_decrypt_aes_encrypt:
  assumes "\<forall>b c. aes_cbc_encrypt L key iv' b = Inr c \<longrightarrow> aes_cbc_decrypt L key iv' c = Inr b"
    and "utf8_roundtrip L"
    and "aes_encrypt L w plaintext key = (Inr (ciphertext, iv'), w')"
  shows "aes_decrypt L ciphertext key iv' = Inr plaintext"
proof -
  from assms(3) obtain b where b: "utf8_encode L plaintext = Inr b"
    and c: "aes_cbc_encrypt L key iv' (pad_data b) = Inr ciphertext"
    by (auto simp add: aes_encrypt_def draw_def Let_def split: sum.splits)
  have "aes_cbc_decrypt L key iv' ciphertext = Inr (pad_data b)" using assms(1) c by blast
  moreover have "unpad_data (pad_data b) = Inr b" by (rule unpad_data_pad_data)
  moreover have "utf8_decode L b = Inr plaintext" by (rule utf8_decode_encoded [OF assms(2) b])
  ultimately show ?thesis by (simp add: aes_decrypt_def)
qed

section \<open>Sealed tickets decode\<close>

lemma seal_ticket_Inr:
  "seal_ticket L cu w data = (Inr t, w') \<longleftrightarrow>
     (\<exists>enc. encrypt_data L cu w (json_dumps L data) = (Inr enc, w')
        \<and> utf8_decode L (b64encode L enc) = Inr t)"
proof -
  obtain r w1 where e: "encrypt_data L cu w (json_dumps L data) = (r, w1)"
    by (cases "encrypt_data L cu w (json_dumps L data)")
  show ?thesis
  proof (cases r)
    case (Inl x)
    then show ?thesis using e by (simp add: seal_ticket_def)
  next
    case (Inr enc)
    then show ?thesis using e
      by (cases "utf8_decode L (b64encode L enc)") (auto simp add: seal_ticket_def)
  qed
qed

lemma decode_sealed:
  assumes "fernet_roundtrip L" and "utf8_roundtrip L" and "b64_roundtrip L"
    and "json_roundtrip L data"
    and "seal_ticket L cu w data = (Inr t, w')"
  shows "decode_ticket L cu t = Inr data"
proof -
  from assms(5) obtain enc where e: "encrypt_data L cu w (json_dumps L data) = (Inr enc, w')"
    and t: "utf8_decode L (b64encode L enc) = Inr t"
    unfolding seal_ticket_Inr by blast
  have "utf8_encode L t = Inr (b64encode L enc)"
    using assms(2) t by (rule utf8_encode_decoded)
  moreover have "b64decode L (b64encode L enc) = Inr enc"
    using assms(3) by (simp add: b64_roundtrip_def)
  moreover have "decrypt_data L cu enc = Inr (json_dumps L data)"
    by (rule decrypt_data_encrypt_data [OF assms(1,2) e])
  moreover have "json_loads L (json_dumps L data) = Inr data"
    using assms(4) by (simp add: json_roundtrip_def)
  ultimately show ?thesis by (simp add: decode_ticket_def)
qed

section \<open>The sample run\<close>

lemma show_int_examples:
  "show_int 1000 = ''1000''" "show_int 28800001001 = ''28800001001''"
  "show_int 1003 = ''1003''" "show_int 7200001004 = ''7200001004''"
  "show_nat 0 = ''0''" "show_nat 2 = ''2''"
  "show_int 28800001000 = ''28800001000''" "show_int 7200001003 = ''7200001003''"
  "show_int 315537897599999999 = ''315537897599999999''"
  by (simp_all add: show_int_def show_nat.simps char_of_def bit_Suc_0_iff)

lemma read_int_examples:
  "read_int ''28800001001'' = Inr 28800001001"
  "read_int ''7200001004'' = Inr 7200001004"
  "read_int ''315537897599999999'' = Inr 315537897599999999"
  using read_show_int [of 28800001001] read_show_int [of 7200001004]
    read_show_int [of 315537897599999999]
  by (simp_all only: show_int_examples)

lemma sample_kdf_book:
  "pbkdf2_hmac (sample_lib book t0) alg len s iterations pw
     = pbkdf2_hmac (sample_lib [] 0) alg len s iterations pw"
  by (simp add: pbkdf2_hmac_def hmac_key_block_def sample_lib_def)

lemma sample_encode: "utf8_encode sample s = Inr (map byte_of_char s)"
  by (simp add: sample_def sample_lib_def)

lemma sample_init: "kerberos_auth_init sample = Inr sample_auth"
proof -
  have k: "pbkdf2_hmac sample alg len s iterations pw
      = pbkdf2_hmac (sample_lib [] 0) alg len s iterations pw" for alg len s iterations pw
    unfolding sample_def by (rule sample_kdf_book)
  have g: "getenv sample n = None" for n by (simp add: sample_def sample_lib_def)
  have u: "urlsafe_b64encode sample b = b" for b by (simp add: sample_def sample_lib_def)
  show ?thesis
    by (simp add: kerberos_auth_init_def crypto_utils_init_def derive_key_def
        getenv_default_def sample_encode g u k sample_auth_def sample_cu_def hours_def
        del: list.map)
qed

lemma datetime_add_Inr:
  "0 \<le> t + delta \<Longrightarrow> t + delta \<le> datetime_max \<Longrightarrow> datetime_add t delta = Inr (t + delta)"
  by (simp add: datetime_add_def)

lemma datetime_add_Inl:
  "\<not> (0 \<le> t + delta \<and> t + delta \<le> datetime_max) \<Longrightarrow> datetime_add t delta = Inl OverflowError"
  by (simp add: datetime_add_def)

lemma tgt_data_dict_eq:
  assumes "0 \<le> now_at L (Suc (clock_reads w)) + tgt_lifetime self"
    and "now_at L (Suc (clock_reads w)) + tgt_lifetime self \<le> datetime_max"
  shows "tgt_data_dict L self w user_id name =
     (Inr (JDict
        [(''user_id'', JStr user_id),
         (''username'', JStr name),
         (''issued_at'', JStr (isoformat L (now_at L (clock_reads w)))),
         (''expires_at'', JStr (isoformat L (now_at L (Suc (clock_reads w)) + tgt_lifetime self))),
         (''session_key'', JStr (token_urlsafe L 32 (rand_draws w))),
         (''permissions'', JList [JStr ''read'', JStr ''write'', JStr ''execute''])]),
      w\<lparr>clock_reads := Suc (Suc (clock_reads w)), rand_draws := Suc (rand_draws w)\<rparr>)"
  using datetime_add_Inr [OF assms]
  by (simp add: tgt_data_dict_def datetime_now_def generate_session_key_def draw_def)

lemma tgt_data_dict_overflow:
  assumes "\<not> (0 \<le> now_at L (Suc (clock_reads w)) + tgt_lifetime self
      \<and> now_at L (Suc (clock_reads w)) + tgt_lifetime self \<le> datetime_max)"
  shows "tgt_data_dict L self w user_id name =
     (Inl OverflowError, w\<lparr>clock_reads := Suc (Suc (clock_reads w))\<rparr>)"
  using datetime_add_Inl [OF assms]
  by (simp add: tgt_data_dict_def datetime_now_def)

lemma sample_tgt_data_dict:
  "tgt_data_dict sample sample_auth sample_world ''1'' ''admin'' =
     (Inr sample_tgt_data, \<lparr>clock_reads = 2, rand_draws = 1\<rparr>)"
proof -
  have n: "now_at sample (Suc (clock_reads sample_world)) + tgt_lifetime sample_auth = 28800001001"
    "now_at sample (clock_reads sample_world) = 1000"
    by (simp_all add: sample_def sample_lib_def sample_world_def sample_auth_def hours_def)
  have "tgt_data_dict sample sample_auth sample_world ''1'' ''admin'' =
     (Inr (JDict
        [(''user_id'', JStr ''1''),
         (''username'', JStr ''admin''),
         (''issued_at'', JStr (isoformat sample 1000)),
         (''expires_at'', JStr (isoformat sample 28800001001)),
         (''session_key'', JStr (token_urlsafe sample 32 (rand_draws sample_world))),
         (''permissions'', JList [JStr ''read'', JStr ''write'', JStr ''execute''])]),
      sample_world\<lparr>clock_reads := Suc (Suc (clock_reads sample_world)),
        rand_draws := Suc (rand_draws sample_world)\<rparr>)"
    using tgt_data_dict_eq [of sample sample_world sample_auth "''1''" "''admin''"]
    unfolding n by (simp add: datetime_max_def)
  then show ?thesis
    by (simp add: sample_def sample_lib_def sample_world_def show_int_examples
        sample_tgt_data_def)
qed

lemma char_of_byte_examples:
  "char_of_byte 1 = CHR 0x01" "char_of_byte 3 = CHR 0x03"
  by (simp_all add: char_of_byte_def char_of_def bit_Suc_0_iff)

lemma sample_seal_tgt:
  "seal_ticket sample sample_cu \<lparr>clock_reads = 2, rand_draws = 1\<rparr> sample_tgt_data =
     (Inr [CHR 0x01, CHR ''j''], \<lparr>clock_reads = 2, rand_draws = 2\<rparr>)"
  by (simp add: seal_ticket_def encrypt_data_def draw_def sample_def sample_lib_def
      book_dumps_def sample_book_def char_byte char_of_byte_examples)

lemma sample_generate_tgt:
  "generate_tgt sample sample_auth sample_world ''1'' ''admin'' =
     (Inr [CHR 0x01, CHR ''j''], \<lparr>clock_reads = 2, rand_draws = 2\<rparr>)"
proof -
  have "crypto_utils sample_auth = sample_cu" by (simp add: sample_auth_def)
  then show ?thesis
    unfolding generate_tgt_def sample_tgt_data_dict prod.case sum.case
    by (simp only: sample_seal_tgt)
qed

lemma sample_decode_tgt:
  "decode_ticket (sample_lib sample_book t0) sample_cu [CHR 0x01, CHR ''j''] = Inr sample_tgt_data"
  by (simp add: decode_ticket_def decrypt_data_def sample_lib_def book_loads_def sample_book_def
      char_byte)

lemma sample_decode_others:
  "decode_ticket (sample_lib sample_book t0) sample_cu [CHR 0x01, CHR ''j'', CHR ''j'', CHR ''j'']
     = Inr sample_list_data"
  "decode_ticket (sample_lib sample_book t0) sample_cu
       [CHR 0x01, CHR ''j'', CHR ''j'', CHR ''j'', CHR ''j'']
     = Inr sample_bare_data"
  "decode_ticket (sample_lib sample_book t0) sample_cu
       [CHR 0x01, CHR ''j'', CHR ''j'', CHR ''j'', CHR ''j'', CHR ''j'']
     = Inr sample_last_tgt_data"
  by (simp_all add: decode_ticket_def decrypt_data_def sample_lib_def book_loads_def
      sample_book_def char_byte)

section \<open>Expiry and validation\<close>

lemma ticket_expired_Inl:
  "subscript data ''expires_at'' = Inl e \<Longrightarrow> ticket_expired L w data = (Inl e, w)"
  by (simp add: ticket_expired_def)

lemma ticket_expired_Inl2:
  "subscript data ''expires_at'' = Inr v \<Longrightarrow> datetime_fromisoformat L v = Inl e \<Longrightarrow> ticket_expired L w data = (Inl e, w)"
  by (simp add: ticket_expired_def)

lemma ticket_expired_Inr:
  "subscript data ''expires_at'' = Inr v \<Longrightarrow> datetime_fromisoformat L v = Inr d \<Longrightarrow> 
    ticket_expired L w data = (datetime_gt (Naive (now_at L (clock_reads w))) d, w\<lparr>clock_reads := Suc (clock_reads w)\<rparr>)"
  by (simp add: ticket_expired_def datetime_now_def)

lemma datetime_fromisoformat_JStr: "datetime_fromisoformat L (JStr s) = fromisoformat L s"
  by (simp add: datetime_fromisoformat_def)

lemma datetime_fromisoformat_other:
  "\<forall>s. v \<noteq> JStr s \<Longrightarrow> datetime_fromisoformat L v = Inl TypeError"
  by (cases v) (simp_all add: datetime_fromisoformat_def)

lemma ticket_not_expired_iff:
  "fst (ticket_expired L w data) = Inr False \<longleftrightarrow>
     (\<exists>s e. subscript data ''expires_at'' = Inr (JStr s)
        \<and> fromisoformat L s = Inr (Naive e) \<and> now_at L (clock_reads w) \<le> e)"
  (is "?l \<longleftrightarrow> ?r")
proof (cases "subscript data ''expires_at''")
  case (Inl e)
  then show ?thesis using ticket_expired_Inl [OF Inl, of L w] by simp
next
  case v: (Inr v)
  show ?thesis
  proof (cases "\<exists>s. v = JStr s")
    case False
    then have "datetime_fromisoformat L v = Inl TypeError"
      by (intro datetime_fromisoformat_other) blast
    from ticket_expired_Inl2 [OF v this, of w] False v show ?thesis by auto
  next
    case True
    then obtain s where s: "v = JStr s" by blast
    show ?thesis
    proof (cases "fromisoformat L s")
      case (Inl e)
      then have "datetime_fromisoformat L v = Inl e" using s
        by (simp add: datetime_fromisoformat_JStr)
      from ticket_expired_Inl2 [OF v this, of w] Inl v s show ?thesis by auto
    next
      case d: (Inr d)
      then have "datetime_fromisoformat L v = Inr d" using s
        by (simp add: datetime_fromisoformat_JStr)
      from ticket_expired_Inr [OF v this, of w]
      have "?l \<longleftrightarrow> datetime_gt (Naive (now_at L (clock_reads w))) d = Inr False" by simp
      also have "\<dots> \<longleftrightarrow> (\<exists>e. d = Naive e \<and> now_at L (clock_reads w) \<le> e)"
        by (cases d) auto
      also have "\<dots> \<longleftrightarrow> ?r" using v s d by auto
      finally show ?thesis .
    qed
  qed
qed

lemma validate_service_ticket_unfold:
  "fst (validate_service_ticket L self w t) \<longleftrightarrow>
     (\<exists>data. decode_ticket L (crypto_utils self) t = Inr data
        \<and> fst (ticket_expired L w data) = Inr False)"
proof (cases "decode_ticket L (crypto_utils self) t")
  case (Inl e)
  then show ?thesis by (simp add: validate_service_ticket_def)
next
  case (Inr data)
  obtain r w' where r: "ticket_expired L w data = (r, w')" by (cases "ticket_expired L w data")
  show ?thesis using Inr r by (cases r) (simp_all add: validate_service_ticket_def)
qed

text \<open>C1, as the code has it: \<open>validate_service_ticket\<close> always returns a boolean,
  and it returns True exactly when the ticket decodes (base64, decryption, UTF-8, JSON),
  the decoded value is a dict whose \<open>expires_at\<close> is a string that \<open>fromisoformat\<close>
  reads as a naive datetime, and the clock is not later than that datetime: a ticket
  whose \<open>expires_at\<close> equals the clock reading is still valid.\<close>

theorem validate_service_ticket_iff:
  "fst (validate_service_ticket L self w t) \<longleftrightarrow>
     (\<exists>data s e. decode_ticket L (crypto_utils self) t = Inr data
        \<and> subscript data ''expires_at'' = Inr (JStr s)
        \<and> fromisoformat L s = Inr (Naive e)
        \<and> now_at L (clock_reads w) \<le> e)"
  unfolding validate_service_ticket_unfold ticket_not_expired_iff by blast

lemma sample_at_expiry_clock: "now_at sample_at_expiry (clock_reads sample_world) = 28800001001"
  by (simp add: sample_at_expiry_def sample_lib_def sample_world_def)

lemma sample_at_expiry_reads:
  "fromisoformat sample_at_expiry ''28800001001'' = Inr (Naive 28800001001)"
  by (simp add: sample_at_expiry_def sample_lib_def read_int_examples)

lemma sample_tgt_expires_at:
  "subscript sample_tgt_data ''expires_at'' = Inr (JStr ''28800001001'')"
  by (simp add: subscript_def sample_tgt_data_def)

theorem validate_service_ticket_iff_witness:
  "fst (validate_service_ticket sample_at_expiry sample_auth sample_world [CHR 0x01, CHR ''j''])"
proof -
  have "decode_ticket sample_at_expiry (crypto_utils sample_auth) [CHR 0x01, CHR ''j'']
      = Inr sample_tgt_data"
    unfolding sample_at_expiry_def by (simp add: sample_auth_def sample_decode_tgt)
  then show ?thesis
    using sample_tgt_expires_at sample_at_expiry_reads sample_at_expiry_clock
    unfolding validate_service_ticket_iff by force
qed

text \<open>C1, as the specification has it, fails at the boundary: the sample
  ticket-granting ticket decodes, its \<open>expires_at\<close> equals the reading of the clock
  (so \<open>expiresAt \<le> now\<close>), and \<open>validate_service_ticket\<close> returns True.\<close>

theorem validate_service_ticket_at_expiry:
  "decode_ticket sample_at_expiry (crypto_utils sample_auth) [CHR 0x01, CHR ''j'']
     = Inr sample_tgt_data \<and>
   subscript sample_tgt_data ''expires_at'' = Inr (JStr ''28800001001'') \<and>
   fromisoformat sample_at_expiry ''28800001001'' = Inr (Naive 28800001001) \<and>
   now_at sample_at_expiry (clock_reads sample_world) = 28800001001 \<and>
   validate_service_ticket sample_at_expiry sample_auth sample_world [CHR 0x01, CHR ''j'']
     = (True, \<lparr>clock_reads = 1, rand_draws = 0\<rparr>)"
proof -
  have d: "decode_ticket sample_at_expiry (crypto_utils sample_auth) [CHR 0x01, CHR ''j'']
      = Inr sample_tgt_data"
    unfolding sample_at_expiry_def by (simp add: sample_auth_def sample_decode_tgt)
  have j: "datetime_fromisoformat sample_at_expiry (JStr ''28800001001'')
      = Inr (Naive 28800001001)"
    by (simp add: datetime_fromisoformat_JStr sample_at_expiry_reads)
  have "ticket_expired sample_at_expiry sample_world sample_tgt_data
      = (Inr False, \<lparr>clock_reads = 1, rand_draws = 0\<rparr>)"
    unfolding ticket_expired_Inr [OF sample_tgt_expires_at j]
    by (simp add: sample_at_expiry_clock) (simp add: sample_world_def)
  then have "validate_service_ticket sample_at_expiry sample_auth sample_world
      [CHR 0x01, CHR ''j''] = (True, \<lparr>clock_reads = 1, rand_draws = 0\<rparr>)"
    using d by (simp add: validate_service_ticket_def)
  then show ?thesis
    using d sample_tgt_expires_at sample_at_expiry_reads sample_at_expiry_clock by blast
qed

section \<open>Introspection\<close>

lemma ticket_info_JDict:
  "ticket_info (JDict kvs) =
     Inr (JDict [(''username'', get_or kvs ''username'' JNull),
                 (''service_name'', get_or kvs ''service_name'' JNull),
                 (''issued_at'', get_or kvs ''issued_at'' JNull),
                 (''expires_at'', get_or kvs ''expires_at'' JNull),
                 (''permissions'', get_or kvs ''permissions'' (JList []))])"
  by (simp add: ticket_info_def dict_get_def)

lemma ticket_info_other: "\<forall>kvs. v \<noteq> JDict kvs \<Longrightarrow> ticket_info v = Inl AttributeError"
  by (cases v) (simp_all add: ticket_info_def dict_get_def)

text \<open>C7, as the code has it: \<open>get_ticket_info\<close> decodes the ticket and never reads
  the clock (the function has no access to it). When the ticket decodes to a dict it
  returns the view
  of \<open>username\<close>, \<open>service_name\<close>, \<open>issued_at\<close>, \<open>expires_at\<close> and
  \<open>permissions\<close>, a missing entry being None (\<open>[]\<close> for the permissions); it
  returns None exactly when the ticket does not decode to a dict.\<close>

theorem get_ticket_info_view:
  "(\<forall>kvs. decode_ticket L (crypto_utils self) t = Inr (JDict kvs) \<longrightarrow>
      get_ticket_info L self t =
        Some (JDict [(''username'', get_or kvs ''username'' JNull),
                     (''service_name'', get_or kvs ''service_name'' JNull),
                     (''issued_at'', get_or kvs ''issued_at'' JNull),
                     (''expires_at'', get_or kvs ''expires_at'' JNull),
                     (''permissions'', get_or kvs ''permissions'' (JList []))])) \<and>
   (get_ticket_info L self t = None \<longleftrightarrow>
      (\<forall>kvs. decode_ticket L (crypto_utils self) t \<noteq> Inr (JDict kvs)))"
proof (cases "decode_ticket L (crypto_utils self) t")
  case (Inl e)
  then show ?thesis by (simp add: get_ticket_info_def)
next
  case (Inr v)
  show ?thesis
  proof (cases "\<exists>kvs. v = JDict kvs")
    case True
    then obtain kvs where "v = JDict kvs" by blast
    then show ?thesis using Inr by (simp add: get_ticket_info_def ticket_info_JDict)
  next
    case False
    then have "ticket_info v = Inl AttributeError" by (intro ticket_info_other) blast
    then show ?thesis using Inr False by (simp add: get_ticket_info_def)
  qed
qed

lemma sample_expired_decode:
  "decode_ticket sample_expired (crypto_utils sample_auth) [CHR 0x01, CHR ''j''] = Inr sample_tgt_data"
  unfolding sample_expired_def by (simp add: sample_auth_def sample_decode_tgt)

lemma sample_expired_validate:
  "validate_service_ticket sample_expired sample_auth sample_world [CHR 0x01, CHR ''j'']
     = (False, \<lparr>clock_reads = 1, rand_draws = 0\<rparr>)"
proof -
  have r: "fromisoformat sample_expired ''28800001001'' = Inr (Naive 28800001001)"
    by (simp add: sample_expired_def sample_lib_def read_int_examples)
  have j: "datetime_fromisoformat sample_expired (JStr ''28800001001'')
      = Inr (Naive 28800001001)"
    by (simp add: datetime_fromisoformat_JStr r)
  have c: "now_at sample_expired (clock_reads sample_world) = 28800001002"
    by (simp add: sample_expired_def sample_lib_def sample_world_def)
  have "ticket_expired sample_expired sample_world sample_tgt_data
      = (Inr True, \<lparr>clock_reads = 1, rand_draws = 0\<rparr>)"
    unfolding ticket_expired_Inr [OF sample_tgt_expires_at j]
    by (simp add: c) (simp add: sample_world_def)
  then show ?thesis using sample_expired_decode by (simp add: validate_service_ticket_def)
qed

theorem get_ticket_info_view_witness:
  "validate_service_ticket sample_expired sample_auth sample_world [CHR 0x01, CHR ''j'']
     = (False, \<lparr>clock_reads = 1, rand_draws = 0\<rparr>) \<and>
   get_ticket_info sample_expired sample_auth [CHR 0x01, CHR ''j''] =
     Some (JDict [(''username'', JStr ''admin''), (''service_name'', JNull),
                  (''issued_at'', JStr ''1000''), (''expires_at'', JStr ''28800001001''),
                  (''permissions'', JList [JStr ''read'', JStr ''write'', JStr ''execute''])]) \<and>
   get_ticket_info sample_expired sample_auth ''garbage'' = None"
proof -
  have d: "decode_ticket sample_expired (crypto_utils sample_auth) [CHR 0x01, CHR ''j'']
      = Inr (JDict
     [(''user_id'', JStr ''1''),
      (''username'', JStr ''admin''),
      (''issued_at'', JStr ''1000''),
      (''expires_at'', JStr ''28800001001''),
      (''session_key'', JStr ''0''),
      (''permissions'', JList [JStr ''read'', JStr ''write'', JStr ''execute''])])"
    using sample_expired_decode by (simp add: sample_tgt_data_def)
  have g: "\<forall>kvs. decode_ticket sample_expired (crypto_utils sample_auth) ''garbage'' \<noteq> Inr (JDict kvs)"
    by (simp add: decode_ticket_def decrypt_data_def sample_expired_def sample_lib_def
        book_loads_def sample_book_def char_byte)
  show ?thesis
    using sample_expired_validate
      get_ticket_info_view [of sample_expired sample_auth "[CHR 0x01, CHR ''j'']"]
      get_ticket_info_view [of sample_expired sample_auth "''garbage''"] g
    unfolding d by (simp add: get_or_def)
qed

text \<open>C7, as the specification has it, fails: the ticket that seals the list
  \<open>[1, 2]\<close> is decrypted and decoded without error, and \<open>get_ticket_info\<close> returns
  None for it.\<close>

theorem get_ticket_info_rejects_list:
  "decode_ticket sample (crypto_utils sample_auth) [CHR 0x01, CHR ''j'', CHR ''j'', CHR ''j'']
     = Inr (JList [JInt 1, JInt 2]) \<and>
   get_ticket_info sample sample_auth [CHR 0x01, CHR ''j'', CHR ''j'', CHR ''j''] = None"
proof -
  have d: "decode_ticket sample (crypto_utils sample_auth)
      [CHR 0x01, CHR ''j'', CHR ''j'', CHR ''j''] = Inr (JList [JInt 1, JInt 2])"
    unfolding sample_def
    by (simp add: sample_auth_def sample_decode_others sample_list_data_def)
  have "ticket_info (JList [JInt 1, JInt 2]) = Inl AttributeError"
    by (rule ticket_info_other) simp
  then show ?thesis using d by (simp add: get_ticket_info_def)
qed

section \<open>Issuing a ticket-granting ticket\<close>

lemma subscript_JDict:
  "subscript (JDict kvs) k = (case map_of kvs k of None \<Rightarrow> Inl KeyError | Some x \<Rightarrow> Inr x)"
  by (simp add: subscript_def)

lemma generate_tgt_Inr:
  "tgt_data_dict L self w user_id name = (Inr data, w3) \<Longrightarrow>
     generate_tgt L self w user_id name = seal_ticket L (crypto_utils self) w3 data"
  by (simp add: generate_tgt_def)

lemma generate_tgt_Inl:
  "tgt_data_dict L self w user_id name = (Inl e, w2) \<Longrightarrow>
     generate_tgt L self w user_id name = (Inl e, w2)"
  by (simp add: generate_tgt_def)

lemma generate_tgt_Inr_data:
  assumes "generate_tgt L self w user_id name = (Inr tgt, w1)"
  shows "\<exists>data w3. tgt_data_dict L self w user_id name = (Inr data, w3)
           \<and> seal_ticket L (crypto_utils self) w3 data = (Inr tgt, w1)"
proof -
  obtain r w' where t: "tgt_data_dict L self w user_id name = (r, w')"
    by (cases "tgt_data_dict L self w user_id name")
  show ?thesis
  proof (cases r)
    case (Inl e)
    then show ?thesis using t assms by (simp add: generate_tgt_def)
  next
    case (Inr data)
    then show ?thesis using t assms by (simp add: generate_tgt_def)
  qed
qed

lemma tgt_data_dict_Inr:
  assumes "tgt_data_dict L self w user_id name = (Inr data, w3)"
  shows "0 \<le> now_at L (Suc (clock_reads w)) + tgt_lifetime self
       \<and> now_at L (Suc (clock_reads w)) + tgt_lifetime self \<le> datetime_max"
proof (rule ccontr)
  assume "\<not> ?thesis"
  from tgt_data_dict_overflow [OF this, of user_id name] assms show False by simp
qed

text \<open>C2, as the code has it: for every id and name (\<open>generate_tgt\<close> takes nothing
  else of the principal), when the second reading of the clock plus the lifetime of a
  ticket-granting ticket is a datetime, the envelope has no \<open>service_name\<close>; its
  permissions are the fixed list read, write, execute; its session key is the next draw
  of \<open>token_urlsafe(32)\<close>; \<open>issued_at\<close> is the first reading of the clock and
  \<open>expires_at\<close> the second reading plus the lifetime; the result is the base64 text of
  the Fernet encryption of the serialised envelope. When that sum passes
  \<open>datetime.max\<close>, \<open>generate_tgt\<close> raises OverflowError and builds no envelope.\<close>

theorem generate_tgt_envelope:
  "(0 \<le> now_at L (Suc (clock_reads w)) + tgt_lifetime self \<and>
    now_at L (Suc (clock_reads w)) + tgt_lifetime self \<le> datetime_max \<longrightarrow>
    (\<exists>data w3.
       tgt_data_dict L self w user_id name = (Inr data, w3) \<and>
       generate_tgt L self w user_id name = seal_ticket L (crypto_utils self) w3 data \<and>
       subscript data ''service_name'' = Inl KeyError \<and>
       subscript data ''user_id'' = Inr (JStr user_id) \<and>
       subscript data ''username'' = Inr (JStr name) \<and>
       subscript data ''permissions''
         = Inr (JList [JStr ''read'', JStr ''write'', JStr ''execute'']) \<and>
       subscript data ''session_key'' = Inr (JStr (token_urlsafe L 32 (rand_draws w))) \<and>
       subscript data ''issued_at'' = Inr (JStr (isoformat L (now_at L (clock_reads w)))) \<and>
       subscript data ''expires_at'' =
         Inr (JStr (isoformat L (now_at L (Suc (clock_reads w)) + tgt_lifetime self))) \<and>
       rand_draws w3 = Suc (rand_draws w) \<and>
       fst (seal_ticket L (crypto_utils self) w3 data) =
         (case utf8_encode L (json_dumps L data) of
            Inl e \<Rightarrow> Inl e
          | Inr b \<Rightarrow> utf8_decode L (b64encode L
              (fernet_encrypt L (fernet_key (crypto_utils self)) (Suc (rand_draws w)) b))))) \<and>
   (\<not> (0 \<le> now_at L (Suc (clock_reads w)) + tgt_lifetime self \<and>
       now_at L (Suc (clock_reads w)) + tgt_lifetime self \<le> datetime_max) \<longrightarrow>
    generate_tgt L self w user_id name
      = (Inl OverflowError, w\<lparr>clock_reads := Suc (Suc (clock_reads w))\<rparr>))"
proof (intro conjI impI)
  assume r: "0 \<le> now_at L (Suc (clock_reads w)) + tgt_lifetime self \<and>
    now_at L (Suc (clock_reads w)) + tgt_lifetime self \<le> datetime_max"
  let ?data = "JDict
        [(''user_id'', JStr user_id),
         (''username'', JStr name),
         (''issued_at'', JStr (isoformat L (now_at L (clock_reads w)))),
         (''expires_at'', JStr (isoformat L (now_at L (Suc (clock_reads w)) + tgt_lifetime self))),
         (''session_key'', JStr (token_urlsafe L 32 (rand_draws w))),
         (''permissions'', JList [JStr ''read'', JStr ''write'', JStr ''execute''])]"
  let ?w3 = "w\<lparr>clock_reads := Suc (Suc (clock_reads w)), rand_draws := Suc (rand_draws w)\<rparr>"
  have t: "tgt_data_dict L self w user_id name = (Inr ?data, ?w3)"
    using r by (intro tgt_data_dict_eq) simp_all
  have g: "generate_tgt L self w user_id name = seal_ticket L (crypto_utils self) ?w3 ?data"
    by (rule generate_tgt_Inr [OF t])
  have f: "subscript ?data ''service_name'' = Inl KeyError"
    "subscript ?data ''user_id'' = Inr (JStr user_id)"
    "subscript ?data ''username'' = Inr (JStr name)"
    "subscript ?data ''permissions'' = Inr (JList [JStr ''read'', JStr ''write'', JStr ''execute''])"
    "subscript ?data ''session_key'' = Inr (JStr (token_urlsafe L 32 (rand_draws w)))"
    "subscript ?data ''issued_at'' = Inr (JStr (isoformat L (now_at L (clock_reads w))))"
    "subscript ?data ''expires_at'' =
       Inr (JStr (isoformat L (now_at L (Suc (clock_reads w)) + tgt_lifetime self)))"
    by (simp_all add: subscript_JDict)
  have c: "rand_draws ?w3 = Suc (rand_draws w)" by simp
  have s: "fst (seal_ticket L (crypto_utils self) ?w3 ?data) =
       (case utf8_encode L (json_dumps L ?data) of
          Inl e \<Rightarrow> Inl e
        | Inr b \<Rightarrow> utf8_decode L (b64encode L
            (fernet_encrypt L (fernet_key (crypto_utils self)) (Suc (rand_draws w)) b)))"
    by (simp add: seal_ticket_def encrypt_data_def draw_def split: sum.splits)
  show "\<exists>data w3.
       tgt_data_dict L self w user_id name = (Inr data, w3) \<and>
       generate_tgt L self w user_id name = seal_ticket L (crypto_utils self) w3 data \<and>
       subscript data ''service_name'' = Inl KeyError \<and>
       subscript data ''user_id'' = Inr (JStr user_id) \<and>
       subscript data ''username'' = Inr (JStr name) \<and>
       subscript data ''permissions''
         = Inr (JList [JStr ''read'', JStr ''write'', JStr ''execute'']) \<and>
       subscript data ''session_key'' = Inr (JStr (token_urlsafe L 32 (rand_draws w))) \<and>
       subscript data ''issued_at'' = Inr (JStr (isoformat L (now_at L (clock_reads w)))) \<and>
       subscript data ''expires_at'' =
         Inr (JStr (isoformat L (now_at L (Suc (clock_reads w)) + tgt_lifetime self))) \<and>
       rand_draws w3 = Suc (rand_draws w) \<and>
       fst (seal_ticket L (crypto_utils self) w3 data) =
         (case utf8_encode L (json_dumps L data) of
            Inl e \<Rightarrow> Inl e
          | Inr b \<Rightarrow> utf8_decode L (b64encode L
              (fernet_encrypt L (fernet_key (crypto_utils self)) (Suc (rand_draws w)) b)))"
    using t g f c s by blast
next
  assume "\<not> (0 \<le> now_at L (Suc (clock_reads w)) + tgt_lifetime self \<and>
       now_at L (Suc (clock_reads w)) + tgt_lifetime self \<le> datetime_max)"
  from tgt_data_dict_overflow [OF this]
  show "generate_tgt L self w user_id name
      = (Inl OverflowError, w\<lparr>clock_reads := Suc (Suc (clock_reads w))\<rparr>)"
    by (rule generate_tgt_Inl)
qed

lemma sample_at_end_overflow:
  "generate_tgt sample_at_end sample_auth sample_world ''1'' ''admin''
     = (Inl OverflowError, \<lparr>clock_reads = 2, rand_draws = 0\<rparr>)"
proof -
  have "\<not> (0 \<le> now_at sample_at_end (Suc (clock_reads sample_world)) + tgt_lifetime sample_auth
      \<and> now_at sample_at_end (Suc (clock_reads sample_world)) + tgt_lifetime sample_auth
          \<le> datetime_max)"
    by (simp add: sample_at_end_def sample_lib_def sample_world_def sample_auth_def)
  from generate_tgt_Inl [OF tgt_data_dict_overflow [OF this]]
  show ?thesis by (simp add: sample_world_def)
qed

theorem generate_tgt_envelope_witness:
  "generate_tgt sample sample_auth sample_world ''1'' ''admin''
     = (Inr [CHR 0x01, CHR ''j''], \<lparr>clock_reads = 2, rand_draws = 2\<rparr>) \<and>
   subscript sample_tgt_data ''permissions''
     = Inr (JList [JStr ''read'', JStr ''write'', JStr ''execute'']) \<and>
   subscript sample_tgt_data ''service_name'' = Inl KeyError \<and>
   generate_tgt sample_at_end sample_auth sample_world ''1'' ''admin''
     = (Inl OverflowError, \<lparr>clock_reads = 2, rand_draws = 0\<rparr>)"
proof -
  have n: "now_at sample (Suc (clock_reads sample_world)) + tgt_lifetime sample_auth = 28800001001"
    by (simp add: sample_def sample_lib_def sample_world_def sample_auth_def hours_def)
  have e: "now_at sample_at_end (Suc (clock_reads sample_world)) + tgt_lifetime sample_auth
      = datetime_max + 1"
    by (simp add: sample_at_end_def sample_lib_def sample_world_def sample_auth_def)
  have w: "sample_world\<lparr>clock_reads := Suc (Suc (clock_reads sample_world))\<rparr>
      = \<lparr>clock_reads = 2, rand_draws = 0\<rparr>"
    by (simp add: sample_world_def)
  from generate_tgt_envelope [of sample sample_world sample_auth "''1''" "''admin''"]
  have "subscript sample_tgt_data ''permissions''
     = Inr (JList [JStr ''read'', JStr ''write'', JStr ''execute'']) \<and>
   subscript sample_tgt_data ''service_name'' = Inl KeyError"
    unfolding n sample_tgt_data_dict by (simp add: datetime_max_def)
  moreover from generate_tgt_envelope [of sample_at_end sample_world sample_auth "''1''" "''admin''"]
  have "generate_tgt sample_at_end sample_auth sample_world ''1'' ''admin''
     = (Inl OverflowError, \<lparr>clock_reads = 2, rand_draws = 0\<rparr>)"
    unfolding e w by simp
  ultimately show ?thesis using sample_generate_tgt by simp
qed

lemma mock_user_sample:
  "mock_user sample w ident name password rs =
     (Inr \<lparr>u_id = ident, u_username = name,
           u_password_hash = of_nat (rand_draws w) # map byte_of_char password,
           u_roles = (if rs = [] then [''user''] else rs),
           u_created_at = 1000 + int (clock_reads w),
           u_last_login = None, u_login_count = 0, u_is_active = True\<rparr>,
      w\<lparr>clock_reads := Suc (clock_reads w), rand_draws := Suc (rand_draws w)\<rparr>)"
  by (simp add: mock_user_def user_init_def datetime_now_def draw_def sample_def sample_lib_def)

lemma sample_store:
  "get_user_by_username sample sample_world name =
     (Inr (map_of [(''admin'', sample_admin),
                   (''user'', \<lparr>u_id = ''2'', u_username = ''user'',
                       u_password_hash = 1 # map byte_of_char ''user123'',
                       u_roles = [''user''], u_created_at = 1001,
                       u_last_login = None, u_login_count = 0, u_is_active = True\<rparr>),
                   (''guest'', sample_guest)] name),
      \<lparr>clock_reads = 3, rand_draws = 3\<rparr>)"
  by (simp add: get_user_by_username_def mock_user_sample sample_world_def
      sample_admin_def sample_guest_def)

text \<open>C2, as the specification has it, fails in the sample runs on three counts. The
  permissions do not come from the roles: the administrator has the roles admin and
  user, the guest has the role guest alone, and the ticket-granting tickets of both
  carry the permissions read, write, execute. The two timestamps do not come from one
  reading of the clock: \<open>issued_at\<close> is 1000, and \<open>expires_at\<close> is not 1000 plus the
  lifetime but one microsecond more. And eight hours before \<open>datetime.max\<close> no
  envelope is built: \<open>generate_tgt\<close> raises OverflowError.\<close>

theorem tgt_permissions_ignore_roles:
  "fst (get_user_by_username sample sample_world ''admin'') = Inr (Some sample_admin) \<and>
   fst (get_user_by_username sample sample_world ''guest'') = Inr (Some sample_guest) \<and>
   u_roles sample_admin = [''admin'', ''user''] \<and>
   u_roles sample_guest = [''guest''] \<and>
   subscript (projr (fst (tgt_data_dict sample sample_auth sample_world
       (u_id sample_admin) (u_username sample_admin)))) ''permissions''
     = Inr (JList [JStr ''read'', JStr ''write'', JStr ''execute'']) \<and>
   subscript (projr (fst (tgt_data_dict sample sample_auth sample_world
       (u_id sample_guest) (u_username sample_guest)))) ''permissions''
     = Inr (JList [JStr ''read'', JStr ''write'', JStr ''execute'']) \<and>
   tgt_data_dict sample sample_auth sample_world ''1'' ''admin''
     = (Inr sample_tgt_data, \<lparr>clock_reads = 2, rand_draws = 1\<rparr>) \<and>
   subscript sample_tgt_data ''issued_at'' = Inr (JStr ''1000'') \<and>
   subscript sample_tgt_data ''expires_at'' = Inr (JStr ''28800001001'') \<and>
   isoformat sample (1000 + tgt_lifetime sample_auth) = ''28800001000'' \<and>
   generate_tgt sample_at_end sample_auth sample_world ''1'' ''admin''
     = (Inl OverflowError, \<lparr>clock_reads = 2, rand_draws = 0\<rparr>)"
proof -
  have r: "0 \<le> now_at sample (Suc (clock_reads sample_world)) + tgt_lifetime sample_auth"
    "now_at sample (Suc (clock_reads sample_world)) + tgt_lifetime sample_auth \<le> datetime_max"
    by (simp_all add: sample_def sample_lib_def sample_world_def sample_auth_def hours_def
        datetime_max_def)
  have p: "subscript (projr (fst (tgt_data_dict sample sample_auth sample_world i n)))
      ''permissions'' = Inr (JList [JStr ''read'', JStr ''write'', JStr ''execute''])" for i n
    by (simp add: tgt_data_dict_eq [OF r] subscript_JDict)
  have i: "isoformat sample (1000 + tgt_lifetime sample_auth) = ''28800001000''"
    by (simp add: sample_def sample_lib_def sample_auth_def hours_def show_int_examples)
  have u: "u_roles sample_admin = [''admin'', ''user'']" "u_roles sample_guest = [''guest'']"
    by (simp_all add: sample_admin_def sample_guest_def)
  have t: "subscript sample_tgt_data ''issued_at'' = Inr (JStr ''1000'')"
    "subscript sample_tgt_data ''expires_at'' = Inr (JStr ''28800001001'')"
    by (simp_all add: sample_tgt_data_def subscript_JDict)
  show ?thesis
    using p u t i sample_tgt_data_dict sample_at_end_overflow
    by (simp add: sample_store)
qed

section \<open>Validating a ticket-granting ticket as a service ticket\<close>

lemma validate_service_ticket_decoded:
  assumes "decode_ticket L (crypto_utils self) t = Inr data"
    and "subscript data ''expires_at'' = Inr (JStr s)"
    and "fromisoformat L s = Inr (Naive e)"
  shows "validate_service_ticket L self w t
     = (now_at L (clock_reads w) \<le> e, w\<lparr>clock_reads := Suc (clock_reads w)\<rparr>)"
proof -
  have "datetime_fromisoformat L (JStr s) = Inr (Naive e)"
    using assms(3) by (simp add: datetime_fromisoformat_JStr)
  from ticket_expired_Inr [OF assms(2) this, of w] assms(1)
  show ?thesis by (auto simp add: validate_service_ticket_def)
qed

text \<open>C8: a ticket-granting ticket that \<open>generate_tgt\<close> has just issued decodes to
  its envelope, which has no \<open>service_name\<close>, and at every reading of the clock
  \<open>validate_service_ticket\<close> returns for it the outcome of the expiry test alone: True
  when the reading is not later than its \<open>expires_at\<close>, False when it is later. The
  libraries are asked to read back what they wrote.\<close>

theorem validate_fresh_tgt:
  assumes "fernet_roundtrip L" and "utf8_roundtrip L" and "b64_roundtrip L"
    and "generate_tgt L self w user_id name = (Inr tgt, w1)"
    and "tgt_data_dict L self w user_id name = (Inr data, w3)"
    and "json_roundtrip L data"
    and "iso_roundtrip L (now_at L (Suc (clock_reads w)) + tgt_lifetime self)"
  shows "decode_ticket L (crypto_utils self) tgt = Inr data
       \<and> subscript data ''service_name'' = Inl KeyError
       \<and> subscript data ''expires_at''
           = Inr (JStr (isoformat L (now_at L (Suc (clock_reads w)) + tgt_lifetime self)))
       \<and> (\<forall>w2. validate_service_ticket L self w2 tgt
             = (now_at L (clock_reads w2)
                  \<le> now_at L (Suc (clock_reads w)) + tgt_lifetime self,
                w2\<lparr>clock_reads := Suc (clock_reads w2)\<rparr>))"
proof -
  let ?e = "now_at L (Suc (clock_reads w)) + tgt_lifetime self"
  have r: "0 \<le> ?e" "?e \<le> datetime_max"
    using tgt_data_dict_Inr [OF assms(5)] by simp_all
  have dd: "data = JDict
        [(''user_id'', JStr user_id),
         (''username'', JStr name),
         (''issued_at'', JStr (isoformat L (now_at L (clock_reads w)))),
         (''expires_at'', JStr (isoformat L ?e)),
         (''session_key'', JStr (token_urlsafe L 32 (rand_draws w))),
         (''permissions'', JList [JStr ''read'', JStr ''write'', JStr ''execute''])]"
    using assms(5) unfolding tgt_data_dict_eq [OF r] by simp
  have s: "seal_ticket L (crypto_utils self) w3 data = (Inr tgt, w1)"
    using assms(4) generate_tgt_Inr [OF assms(5)] by simp
  have d: "decode_ticket L (crypto_utils self) tgt = Inr data"
    by (rule decode_sealed [OF assms(1,2,3,6) s])
  have n: "subscript data ''service_name'' = Inl KeyError"
    unfolding dd by (simp add: subscript_JDict)
  have x: "subscript data ''expires_at'' = Inr (JStr (isoformat L ?e))"
    unfolding dd by (simp add: subscript_JDict)
  have f: "fromisoformat L (isoformat L ?e) = Inr (Naive ?e)"
    using assms(7) by (simp add: iso_roundtrip_def)
  have "validate_service_ticket L self w2 tgt
      = (now_at L (clock_reads w2) \<le> ?e, w2\<lparr>clock_reads := Suc (clock_reads w2)\<rparr>)" for w2
    by (rule validate_service_ticket_decoded [OF d x f])
  then show ?thesis using d n x by blast
qed

lemma sample_contracts:
  "fernet_roundtrip sample" "utf8_roundtrip sample" "b64_roundtrip sample"
  "json_roundtrip sample sample_tgt_data" "json_roundtrip sample sample_service_data"
  "iso_roundtrip sample t"
  unfolding sample_def
  by (simp_all add: sample_fernet sample_utf8 sample_b64 sample_json sample_iso sample_book_def)

theorem validate_fresh_tgt_witness:
  "generate_tgt sample sample_auth sample_world ''1'' ''admin''
     = (Inr [CHR 0x01, CHR ''j''], \<lparr>clock_reads = 2, rand_draws = 2\<rparr>) \<and>
   validate_service_ticket sample sample_auth \<lparr>clock_reads = 2, rand_draws = 2\<rparr>
       [CHR 0x01, CHR ''j'']
     = (True, \<lparr>clock_reads = 3, rand_draws = 2\<rparr>) \<and>
   validate_service_ticket sample sample_auth \<lparr>clock_reads = 28800000002, rand_draws = 2\<rparr>
       [CHR 0x01, CHR ''j'']
     = (False, \<lparr>clock_reads = 28800000003, rand_draws = 2\<rparr>)"
proof -
  have n: "now_at sample (Suc (clock_reads sample_world)) + tgt_lifetime sample_auth = 28800001001"
    by (simp add: sample_def sample_lib_def sample_world_def sample_auth_def hours_def)
  have c: "now_at sample 2 = 1002" "now_at sample 28800000002 = 28800001002"
    by (simp_all add: sample_def sample_lib_def)
  from validate_fresh_tgt [OF sample_contracts(1,2,3) sample_generate_tgt
      sample_tgt_data_dict sample_contracts(4) sample_contracts(6)]
  have v: "validate_service_ticket sample sample_auth w2 [CHR 0x01, CHR ''j'']
      = (now_at sample (clock_reads w2) \<le> 28800001001,
         w2\<lparr>clock_reads := Suc (clock_reads w2)\<rparr>)" for w2
    unfolding n by blast
  show ?thesis
    using sample_generate_tgt v [of "\<lparr>clock_reads = 2, rand_draws = 2\<rparr>"]
      v [of "\<lparr>clock_reads = 28800000002, rand_draws = 2\<rparr>"]
    by (simp add: c)
qed

section \<open>Authentication\<close>

lemma get_user_by_username_absent:
  assumes "name \<notin> {''admin'', ''user'', ''guest''}"
  shows "(\<exists>e. fst (get_user_by_username L w name) = Inl e)
       \<or> fst (get_user_by_username L w name) = Inr None"
proof -
  obtain r1 w1 where m1: "mock_user L w ''1'' ''admin'' ''admin123'' [''admin'', ''user''] = (r1, w1)"
    by (cases "mock_user L w ''1'' ''admin'' ''admin123'' [''admin'', ''user'']")
  obtain r2 w2 where m2: "mock_user L w1 ''2'' ''user'' ''user123'' [''user''] = (r2, w2)"
    by (cases "mock_user L w1 ''2'' ''user'' ''user123'' [''user'']")
  obtain r3 w3 where m3: "mock_user L w2 ''3'' ''guest'' ''guest123'' [''guest''] = (r3, w3)"
    by (cases "mock_user L w2 ''3'' ''guest'' ''guest123'' [''guest'']")
  show ?thesis
  proof (cases r1)
    case (Inl e)
    then show ?thesis using m1 by (simp add: get_user_by_username_def)
  next
    case a: (Inr a)
    show ?thesis
    proof (cases r2)
      case (Inl e)
      then show ?thesis using m1 a m2 by (simp add: get_user_by_username_def)
    next
      case b: (Inr b)
      show ?thesis
      proof (cases r3)
        case (Inl e)
        then show ?thesis using m1 a m2 b m3 by (simp add: get_user_by_username_def)
      next
        case (Inr c)
        then show ?thesis using m1 a m2 b m3 assms by (simp add: get_user_by_username_def)
      qed
    qed
  qed
qed

lemma authenticate_user_eq:
  "fst (authenticate_user L self w name password) =
     (case fst (get_user_by_username L w name) of
        Inl e \<Rightarrow> None
      | Inr None \<Rightarrow> None
      | Inr (Some user) \<Rightarrow>
          if auth_verify_password L password (u_password_hash user) then Some user else None)"
  by (simp add: authenticate_user_def split: prod.splits sum.splits option.splits)

text \<open>C5: \<open>authenticate_user\<close> returns None when the lookup of the user raises,
  when the store has no such user (every name other than admin, user and guest), and
  when the password does not verify; it returns the user otherwise. The three failures
  give the same value.\<close>

theorem authenticate_user_uniform_failure:
  "(\<forall>e. fst (get_user_by_username L w name) = Inl e \<longrightarrow>
      fst (authenticate_user L self w name password) = None) \<and>
   (fst (get_user_by_username L w name) = Inr None \<longrightarrow>
      fst (authenticate_user L self w name password) = None) \<and>
   (name \<notin> {''admin'', ''user'', ''guest''} \<longrightarrow>
      fst (authenticate_user L self w name password) = None) \<and>
   (\<forall>user. fst (get_user_by_username L w name) = Inr (Some user) \<longrightarrow>
      \<not> auth_verify_password L password (u_password_hash user) \<longrightarrow>
      fst (authenticate_user L self w name password) = None) \<and>
   (\<forall>user. fst (get_user_by_username L w name) = Inr (Some user) \<longrightarrow>
      auth_verify_password L password (u_password_hash user) \<longrightarrow>
      fst (authenticate_user L self w name password) = Some user)"
proof -
  have "name \<notin> {''admin'', ''user'', ''guest''} \<Longrightarrow>
      fst (authenticate_user L self w name password) = None"
    using get_user_by_username_absent [of name L w]
    by (auto simp add: authenticate_user_eq)
  then show ?thesis by (simp add: authenticate_user_eq)
qed

lemma sample_failing_store:
  "get_user_by_username (sample\<lparr>bcrypt_hashpw := (\<lambda>pw s. Inl ValueError)\<rparr>) sample_world name
     = (Inl ValueError, \<lparr>clock_reads = 0, rand_draws = 1\<rparr>)"
  by (simp add: get_user_by_username_def mock_user_def draw_def sample_def sample_lib_def
      sample_world_def)

lemma sample_checkpw:
  "auth_verify_password sample password (b # map byte_of_char stored) \<longleftrightarrow> password = stored"
proof -
  have "inj byte_of_char" by (metis char_byte injI)
  then show ?thesis
    by (auto simp add: auth_verify_password_def sample_def sample_lib_def inj_map_eq_map)
qed

theorem authenticate_user_uniform_failure_witness:
  "fst (authenticate_user (sample\<lparr>bcrypt_hashpw := (\<lambda>pw s. Inl ValueError)\<rparr>)
          sample_auth sample_world ''admin'' ''admin123'') = None \<and>
   fst (authenticate_user sample sample_auth sample_world ''nobody'' ''admin123'') = None \<and>
   fst (authenticate_user sample sample_auth sample_world ''admin'' ''wrong'') = None \<and>
   fst (authenticate_user sample sample_auth sample_world ''admin'' ''admin123'')
     = Some sample_admin"
proof -
  have a: "fst (get_user_by_username sample sample_world ''admin'') = Inr (Some sample_admin)"
    by (simp add: sample_store)
  have n: "fst (get_user_by_username sample sample_world ''nobody'') = Inr None"
    by (simp add: sample_store)
  have f: "fst (get_user_by_username (sample\<lparr>bcrypt_hashpw := (\<lambda>pw s. Inl ValueError)\<rparr>)
      sample_world ''admin'') = Inl ValueError"
    by (simp add: sample_failing_store)
  have h: "u_password_hash sample_admin = 0 # map byte_of_char ''admin123''"
    by (simp add: sample_admin_def del: list.map)
  have w: "\<not> auth_verify_password sample ''wrong'' (u_password_hash sample_admin)"
    unfolding h sample_checkpw by simp
  have r: "auth_verify_password sample ''admin123'' (u_password_hash sample_admin)"
    unfolding h sample_checkpw by simp
  show ?thesis
    using authenticate_user_uniform_failure
        [of "sample\<lparr>bcrypt_hashpw := (\<lambda>pw s. Inl ValueError)\<rparr>" sample_world "''admin''"
          sample_auth "''admin123''"]
      authenticate_user_uniform_failure [of sample sample_world "''nobody''" sample_auth "''admin123''"]
      authenticate_user_uniform_failure [of sample sample_world "''admin''" sample_auth "''wrong''"]
      authenticate_user_uniform_failure [of sample sample_world "''admin''" sample_auth "''admin123''"]
      a n f w r
    by simp
qed

section \<open>Issuing a service ticket\<close>

lemma validate_tgt_decoded:
  assumes "decode_ticket L (crypto_utils self) t = Inr data"
    and "subscript data ''expires_at'' = Inr (JStr s)"
    and "fromisoformat L s = Inr (Naive e)"
    and "now_at L (clock_reads w) \<le> e"
  shows "validate_tgt L self w t = (Some data, w\<lparr>clock_reads := Suc (clock_reads w)\<rparr>)"
proof -
  have "datetime_fromisoformat L (JStr s) = Inr (Naive e)"
    using assms(3) by (simp add: datetime_fromisoformat_JStr)
  from ticket_expired_Inr [OF assms(2) this, of w] assms(1,4)
  show ?thesis by (auto simp add: validate_tgt_def)
qed

lemma subscript_Inr_dict: "subscript v k = Inr x \<Longrightarrow> \<exists>kvs. v = JDict kvs \<and> map_of kvs k = Some x"
  by (cases v) (auto simp add: subscript_def split: option.splits)

lemma validate_tgt_Some:
  "validate_tgt L self w tgt = (Some tgt_data, w0) \<longleftrightarrow>
     decode_ticket L (crypto_utils self) tgt = Inr tgt_data \<and>
     ticket_expired L w tgt_data = (Inr False, w0)"
proof (cases "decode_ticket L (crypto_utils self) tgt")
  case (Inl e)
  then show ?thesis by (simp add: validate_tgt_def)
next
  case (Inr d)
  obtain r w' where r: "ticket_expired L w d = (r, w')" by (cases "ticket_expired L w d")
  show ?thesis
  proof (cases r)
    case (Inl e)
    then show ?thesis using Inr r by (auto simp add: validate_tgt_def)
  next
    case x: (Inr x)
    then show ?thesis using Inr r by (cases x) (auto simp add: validate_tgt_def)
  qed
qed

lemma ticket_expired_clock:
  "ticket_expired L w d = (Inr x, w0) \<Longrightarrow> w0 = w\<lparr>clock_reads := Suc (clock_reads w)\<rparr>"
proof -
  assume a: "ticket_expired L w d = (Inr x, w0)"
  show ?thesis
  proof (cases "subscript d ''expires_at''")
    case (Inl e)
    then show ?thesis using a ticket_expired_Inl [OF Inl, of L w] by simp
  next
    case v: (Inr v)
    show ?thesis
    proof (cases "datetime_fromisoformat L v")
      case (Inl e)
      then show ?thesis using a ticket_expired_Inl2 [OF v Inl, of w] by simp
    next
      case (Inr t)
      then show ?thesis using a ticket_expired_Inr [OF v Inr, of w] by simp
    qed
  qed
qed

lemma map_of_Some_nonempty: "map_of kvs k = Some v \<Longrightarrow> kvs \<noteq> []"
  by auto

lemma validated_is_dict:
  assumes "validate_tgt L self w tgt = (Some tgt_data, w0)"
  shows "\<exists>kvs. tgt_data = JDict kvs \<and> kvs \<noteq> []"
    and "w0 = w\<lparr>clock_reads := Suc (clock_reads w)\<rparr>"
proof -
  have e: "ticket_expired L w tgt_data = (Inr False, w0)"
    using assms by (simp add: validate_tgt_Some)
  then have "fst (ticket_expired L w tgt_data) = Inr False" by simp
  then have "\<exists>s e. subscript tgt_data ''expires_at'' = Inr (JStr s)
        \<and> fromisoformat L s = Inr (Naive e) \<and> now_at L (clock_reads w) \<le> e"
    by (simp only: ticket_not_expired_iff)
  then obtain s where s: "subscript tgt_data ''expires_at'' = Inr (JStr s)" by blast
  obtain kvs where k: "tgt_data = JDict kvs" and m: "map_of kvs ''expires_at'' = Some (JStr s)"
    using subscript_Inr_dict [OF s] by blast
  have "kvs \<noteq> []" by (rule map_of_Some_nonempty [OF m])
  then show "\<exists>kvs. tgt_data = JDict kvs \<and> kvs \<noteq> []" using k by blast
  show "w0 = w\<lparr>clock_reads := Suc (clock_reads w)\<rparr>" by (rule ticket_expired_clock [OF e])
qed

lemma service_ticket_data_dict_no_user_id:
  "map_of kvs ''user_id'' = None \<Longrightarrow>
     service_ticket_data_dict L self w0 (JDict kvs) service_name = (Inl KeyError, w0)"
  by (simp add: service_ticket_data_dict_def subscript_JDict)

lemma service_ticket_data_dict_no_username:
  "map_of kvs ''user_id'' = Some uid \<Longrightarrow> map_of kvs ''username'' = None \<Longrightarrow>
     service_ticket_data_dict L self w0 (JDict kvs) service_name = (Inl KeyError, w0)"
  by (simp add: service_ticket_data_dict_def subscript_JDict)

lemma service_ticket_data_dict_overflow:
  assumes "map_of kvs ''user_id'' = Some uid" and "map_of kvs ''username'' = Some uname"
    and "\<not> (0 \<le> now_at L (Suc (clock_reads w0)) + service_ticket_lifetime self
      \<and> now_at L (Suc (clock_reads w0)) + service_ticket_lifetime self \<le> datetime_max)"
  shows "service_ticket_data_dict L self w0 (JDict kvs) service_name =
     (Inl OverflowError, w0\<lparr>clock_reads := Suc (Suc (clock_reads w0))\<rparr>)"
  using assms(1,2) datetime_add_Inl [OF assms(3)]
  by (simp add: service_ticket_data_dict_def subscript_JDict datetime_now_def)

lemma service_ticket_data_dict_eq:
  assumes "map_of kvs ''user_id'' = Some uid" and "map_of kvs ''username'' = Some uname"
    and "0 \<le> now_at L (Suc (clock_reads w0)) + service_ticket_lifetime self"
    and "now_at L (Suc (clock_reads w0)) + service_ticket_lifetime self \<le> datetime_max"
  shows "service_ticket_data_dict L self w0 (JDict kvs) service_name =
     (Inr (JDict
        [(''user_id'', uid),
         (''username'', uname),
         (''service_name'', JStr service_name),
         (''issued_at'', JStr (isoformat L (now_at L (clock_reads w0)))),
         (''expires_at'',
            JStr (isoformat L (now_at L (Suc (clock_reads w0)) + service_ticket_lifetime self))),
         (''session_key'', JStr (token_urlsafe L 32 (rand_draws w0))),
         (''permissions'', get_or kvs ''permissions'' (JList []))]),
      w0\<lparr>clock_reads := Suc (Suc (clock_reads w0)), rand_draws := Suc (rand_draws w0)\<rparr>)"
  using assms(1,2) datetime_add_Inr [OF assms(3,4)]
  by (simp add: service_ticket_data_dict_def subscript_JDict dict_get_def datetime_now_def
      generate_session_key_def draw_def)

lemma generate_service_ticket_validated:
  assumes "validate_tgt L self w tgt = (Some tgt_data, w0)"
  shows "service_ticket_data_dict L self w0 tgt_data service_name = (Inl e, w3) \<Longrightarrow>
      generate_service_ticket L self w tgt service_name = (Inl e, w3)"
    and "service_ticket_data_dict L self w0 tgt_data service_name = (Inr data, w3) \<Longrightarrow>
      generate_service_ticket L self w tgt service_name
        = seal_ticket L (crypto_utils self) w3 data"
proof -
  have t: "truthy tgt_data" using validated_is_dict(1) [OF assms] by auto
  show "service_ticket_data_dict L self w0 tgt_data service_name = (Inl e, w3) \<Longrightarrow>
      generate_service_ticket L self w tgt service_name = (Inl e, w3)"
    using assms t by (simp add: generate_service_ticket_def)
  show "service_ticket_data_dict L self w0 tgt_data service_name = (Inr data, w3) \<Longrightarrow>
      generate_service_ticket L self w tgt service_name
        = seal_ticket L (crypto_utils self) w3 data"
    using assms t by (simp add: generate_service_ticket_def)
qed

text \<open>C4, as the code has it: when \<open>_validate_tgt\<close> accepts the ticket-granting
  ticket (it decodes and has not expired), its envelope is a dict. Without a
  \<open>user_id\<close> or a \<open>username\<close> in it, \<open>generate_service_ticket\<close> raises KeyError;
  when the second reading of the clock plus the lifetime of a service ticket passes
  \<open>datetime.max\<close> it raises OverflowError; otherwise it seals an envelope that carries
  the permissions of the ticket-granting ticket unchanged (the empty list when it has
  none), its \<open>user_id\<close> and its \<open>username\<close>, the requested \<open>service_name\<close>, the
  next draw of \<open>token_urlsafe(32)\<close> as session key, the reading of the clock as
  \<open>issued_at\<close> and the next reading plus the lifetime as \<open>expires_at\<close>.\<close>

theorem service_ticket_inherits:
  assumes "validate_tgt L self w tgt = (Some tgt_data, w0)"
  shows "clock_reads w0 = Suc (clock_reads w) \<and>
   (\<forall>k. subscript tgt_data k = Inl KeyError \<or> (\<exists>v. subscript tgt_data k = Inr v)) \<and>
   (subscript tgt_data ''user_id'' = Inl KeyError \<longrightarrow>
      generate_service_ticket L self w tgt service_name = (Inl KeyError, w0)) \<and>
   (\<forall>uid. subscript tgt_data ''user_id'' = Inr uid \<longrightarrow>
      subscript tgt_data ''username'' = Inl KeyError \<longrightarrow>
      generate_service_ticket L self w tgt service_name = (Inl KeyError, w0)) \<and>
   (\<forall>uid uname. subscript tgt_data ''user_id'' = Inr uid \<longrightarrow>
      subscript tgt_data ''username'' = Inr uname \<longrightarrow>
      (\<not> (0 \<le> now_at L (Suc (clock_reads w0)) + service_ticket_lifetime self \<and>
          now_at L (Suc (clock_reads w0)) + service_ticket_lifetime self \<le> datetime_max) \<longrightarrow>
       generate_service_ticket L self w tgt service_name
         = (Inl OverflowError, w0\<lparr>clock_reads := Suc (Suc (clock_reads w0))\<rparr>)) \<and>
      (0 \<le> now_at L (Suc (clock_reads w0)) + service_ticket_lifetime self \<and>
       now_at L (Suc (clock_reads w0)) + service_ticket_lifetime self \<le> datetime_max \<longrightarrow>
       (\<exists>data w3.
          service_ticket_data_dict L self w0 tgt_data service_name = (Inr data, w3) \<and>
          generate_service_ticket L self w tgt service_name
            = seal_ticket L (crypto_utils self) w3 data \<and>
          subscript data ''permissions'' = dict_get tgt_data ''permissions'' (JList []) \<and>
          (\<forall>p. subscript tgt_data ''permissions'' = Inr p \<longrightarrow>
               subscript data ''permissions'' = Inr p) \<and>
          subscript data ''user_id'' = Inr uid \<and>
          subscript data ''username'' = Inr uname \<and>
          subscript data ''service_name'' = Inr (JStr service_name) \<and>
          subscript data ''session_key'' = Inr (JStr (token_urlsafe L 32 (rand_draws w0))) \<and>
          subscript data ''issued_at'' = Inr (JStr (isoformat L (now_at L (clock_reads w0)))) \<and>
          subscript data ''expires_at'' =
            Inr (JStr (isoformat L
              (now_at L (Suc (clock_reads w0)) + service_ticket_lifetime self))) \<and>
          rand_draws w3 = Suc (rand_draws w))))"
proof -
  obtain kvs where k: "tgt_data = JDict kvs"
    using validated_is_dict(1) [OF assms] by blast
  have w0: "w0 = w\<lparr>clock_reads := Suc (clock_reads w)\<rparr>"
    by (rule validated_is_dict(2) [OF assms])
  note gen = generate_service_ticket_validated [OF assms]
  let ?x = "now_at L (Suc (clock_reads w0)) + service_ticket_lifetime self"
  have c1: "clock_reads w0 = Suc (clock_reads w)" by (simp add: w0)
  have c2: "subscript tgt_data k' = Inl KeyError \<or> (\<exists>v. subscript tgt_data k' = Inr v)" for k'
    unfolding k by (simp add: subscript_JDict split: option.splits)
  have c3: "generate_service_ticket L self w tgt service_name = (Inl KeyError, w0)"
    if "subscript tgt_data ''user_id'' = Inl KeyError"
  proof -
    have "map_of kvs ''user_id'' = None"
      using that unfolding k by (simp add: subscript_JDict split: option.splits)
    from service_ticket_data_dict_no_user_id [OF this, of L self w0 service_name]
    show ?thesis unfolding k [symmetric] by (rule gen(1))
  qed
  have c4: "generate_service_ticket L self w tgt service_name = (Inl KeyError, w0)"
    if "subscript tgt_data ''user_id'' = Inr uid"
      and "subscript tgt_data ''username'' = Inl KeyError" for uid
  proof -
    have "map_of kvs ''user_id'' = Some uid" "map_of kvs ''username'' = None"
      using that unfolding k by (simp_all add: subscript_JDict split: option.splits)
    from service_ticket_data_dict_no_username [OF this, of L self w0 service_name]
    show ?thesis unfolding k [symmetric] by (rule gen(1))
  qed
  have c5: "generate_service_ticket L self w tgt service_name
         = (Inl OverflowError, w0\<lparr>clock_reads := Suc (Suc (clock_reads w0))\<rparr>)"
    if "subscript tgt_data ''user_id'' = Inr uid"
      and "subscript tgt_data ''username'' = Inr uname"
      and "\<not> (0 \<le> ?x \<and> ?x \<le> datetime_max)" for uid uname
  proof -
    have "map_of kvs ''user_id'' = Some uid" "map_of kvs ''username'' = Some uname"
      using that(1,2) unfolding k by (simp_all add: subscript_JDict split: option.splits)
    from service_ticket_data_dict_overflow [OF this that(3), of service_name]
    show ?thesis unfolding k [symmetric] by (rule gen(1))
  qed
  have c6: "\<exists>data w3.
          service_ticket_data_dict L self w0 tgt_data service_name = (Inr data, w3) \<and>
          generate_service_ticket L self w tgt service_name
            = seal_ticket L (crypto_utils self) w3 data \<and>
          subscript data ''permissions'' = dict_get tgt_data ''permissions'' (JList []) \<and>
          (\<forall>p. subscript tgt_data ''permissions'' = Inr p \<longrightarrow>
               subscript data ''permissions'' = Inr p) \<and>
          subscript data ''user_id'' = Inr uid \<and>
          subscript data ''username'' = Inr uname \<and>
          subscript data ''service_name'' = Inr (JStr service_name) \<and>
          subscript data ''session_key'' = Inr (JStr (token_urlsafe L 32 (rand_draws w0))) \<and>
          subscript data ''issued_at'' = Inr (JStr (isoformat L (now_at L (clock_reads w0)))) \<and>
          subscript data ''expires_at'' = Inr (JStr (isoformat L ?x)) \<and>
          rand_draws w3 = Suc (rand_draws w)"
    if "subscript tgt_data ''user_id'' = Inr uid"
      and "subscript tgt_data ''username'' = Inr uname"
      and "0 \<le> ?x \<and> ?x \<le> datetime_max" for uid uname
  proof -
    have m: "map_of kvs ''user_id'' = Some uid" "map_of kvs ''username'' = Some uname"
      using that(1,2) unfolding k by (simp_all add: subscript_JDict split: option.splits)
    let ?data = "JDict
        [(''user_id'', uid),
         (''username'', uname),
         (''service_name'', JStr service_name),
         (''issued_at'', JStr (isoformat L (now_at L (clock_reads w0)))),
         (''expires_at'', JStr (isoformat L ?x)),
         (''session_key'', JStr (token_urlsafe L 32 (rand_draws w0))),
         (''permissions'', get_or kvs ''permissions'' (JList []))]"
    let ?w3 = "w0\<lparr>clock_reads := Suc (Suc (clock_reads w0)), rand_draws := Suc (rand_draws w0)\<rparr>"
    have d: "service_ticket_data_dict L self w0 tgt_data service_name = (Inr ?data, ?w3)"
      unfolding k using that(3) by (intro service_ticket_data_dict_eq [OF m]) simp_all
    have g: "generate_service_ticket L self w tgt service_name
        = seal_ticket L (crypto_utils self) ?w3 ?data"
      by (rule gen(2) [OF d])
    have p: "subscript ?data ''permissions'' = dict_get tgt_data ''permissions'' (JList [])"
      by (simp add: subscript_JDict dict_get_def k)
    have p': "\<forall>p. subscript tgt_data ''permissions'' = Inr p \<longrightarrow>
        subscript ?data ''permissions'' = Inr p"
      by (auto simp add: subscript_JDict k get_or_def split: option.splits)
    have f: "subscript ?data ''user_id'' = Inr uid"
      "subscript ?data ''username'' = Inr uname"
      "subscript ?data ''service_name'' = Inr (JStr service_name)"
      "subscript ?data ''session_key'' = Inr (JStr (token_urlsafe L 32 (rand_draws w0)))"
      "subscript ?data ''issued_at'' = Inr (JStr (isoformat L (now_at L (clock_reads w0))))"
      "subscript ?data ''expires_at'' = Inr (JStr (isoformat L ?x))"
      by (simp_all add: subscript_JDict)
    have c: "rand_draws ?w3 = Suc (rand_draws w)" by (simp add: w0)
    show ?thesis using d g p p' f c by blast
  qed
  show ?thesis using c1 c2 c3 c4 c5 c6 by blast
qed

lemma sample_cu_auth: "crypto_utils sample_auth = sample_cu"
  by (simp add: sample_auth_def)

lemma sample_validate_tgt:
  "validate_tgt sample sample_auth \<lparr>clock_reads = 2, rand_draws = 2\<rparr> [CHR 0x01, CHR ''j'']
     = (Some sample_tgt_data, \<lparr>clock_reads = 3, rand_draws = 2\<rparr>)"
proof -
  have d: "decode_ticket sample (crypto_utils sample_auth) [CHR 0x01, CHR ''j''] = Inr sample_tgt_data"
    unfolding sample_def sample_cu_auth by (rule sample_decode_tgt)
  have r: "fromisoformat sample ''28800001001'' = Inr (Naive 28800001001)"
    by (simp add: sample_def sample_lib_def read_int_examples)
  have c: "now_at sample (clock_reads \<lparr>clock_reads = 2, rand_draws = 2\<rparr>) \<le> 28800001001"
    by (simp add: sample_def sample_lib_def)
  from validate_tgt_decoded [OF d sample_tgt_expires_at r c] show ?thesis by simp
qed

lemma sample_service_ticket_data_dict:
  "service_ticket_data_dict sample sample_auth \<lparr>clock_reads = 3, rand_draws = 2\<rparr>
       sample_tgt_data ''reporting-api''
     = (Inr sample_service_data, \<lparr>clock_reads = 5, rand_draws = 3\<rparr>)"
proof -
  have m: "map_of [(''user_id'', JStr ''1''), (''username'', JStr ''admin''),
      (''issued_at'', JStr ''1000''), (''expires_at'', JStr ''28800001001''),
      (''session_key'', JStr ''0''),
      (''permissions'', JList [JStr ''read'', JStr ''write'', JStr ''execute''])] ''user_id''
      = Some (JStr ''1'')"
    "map_of [(''user_id'', JStr ''1''), (''username'', JStr ''admin''),
      (''issued_at'', JStr ''1000''), (''expires_at'', JStr ''28800001001''),
      (''session_key'', JStr ''0''),
      (''permissions'', JList [JStr ''read'', JStr ''write'', JStr ''execute''])] ''username''
      = Some (JStr ''admin'')"
    by simp_all
  have n: "now_at sample (Suc (clock_reads \<lparr>clock_reads = 3, rand_draws = 2\<rparr>))
      + service_ticket_lifetime sample_auth = 7200001004"
    by (simp add: sample_def sample_lib_def sample_auth_def hours_def)
  have r: "0 \<le> now_at sample (Suc (clock_reads \<lparr>clock_reads = 3, rand_draws = 2\<rparr>))
      + service_ticket_lifetime sample_auth"
    "now_at sample (Suc (clock_reads \<lparr>clock_reads = 3, rand_draws = 2\<rparr>))
      + service_ticket_lifetime sample_auth \<le> datetime_max"
    unfolding n by (simp_all add: datetime_max_def)
  show ?thesis
    unfolding sample_tgt_data_def service_ticket_data_dict_eq [OF m r] n
    by (simp add: sample_service_data_def get_or_def sample_def sample_lib_def
        show_int_examples)
qed

lemma sample_seal_service:
  "seal_ticket sample sample_cu \<lparr>clock_reads = 5, rand_draws = 3\<rparr> sample_service_data =
     (Inr [CHR 0x03, CHR ''j'', CHR ''j''], \<lparr>clock_reads = 5, rand_draws = 4\<rparr>)"
  by (simp add: seal_ticket_def encrypt_data_def draw_def sample_def sample_lib_def
      book_dumps_def sample_book_def char_byte char_of_byte_examples
      sample_tgt_data_def sample_service_data_def)

lemma sample_decode_service:
  "decode_ticket (sample_lib sample_book t0) sample_cu [CHR 0x03, CHR ''j'', CHR ''j'']
     = Inr sample_service_data"
  by (simp add: decode_ticket_def decrypt_data_def sample_lib_def book_loads_def sample_book_def
      char_byte)

lemma sample_generate_service_ticket:
  "generate_service_ticket sample sample_auth \<lparr>clock_reads = 2, rand_draws = 2\<rparr>
       [CHR 0x01, CHR ''j''] ''reporting-api''
     = (Inr [CHR 0x03, CHR ''j'', CHR ''j''], \<lparr>clock_reads = 5, rand_draws = 4\<rparr>)"
  using generate_service_ticket_validated(2)
      [OF sample_validate_tgt sample_service_ticket_data_dict]
  by (simp only: sample_cu_auth sample_seal_service)

lemma sample_bare_expires_at:
  "subscript sample_bare_data ''expires_at'' = Inr (JStr ''28800001001'')"
  by (simp add: sample_bare_data_def subscript_JDict)

lemma sample_validate_bare:
  "validate_tgt sample sample_auth sample_world
       [CHR 0x01, CHR ''j'', CHR ''j'', CHR ''j'', CHR ''j'']
     = (Some sample_bare_data, \<lparr>clock_reads = 1, rand_draws = 0\<rparr>)"
proof -
  have d: "decode_ticket sample (crypto_utils sample_auth)
      [CHR 0x01, CHR ''j'', CHR ''j'', CHR ''j'', CHR ''j''] = Inr sample_bare_data"
    unfolding sample_def sample_cu_auth by (rule sample_decode_others)
  have r: "fromisoformat sample ''28800001001'' = Inr (Naive 28800001001)"
    by (simp add: sample_def sample_lib_def read_int_examples)
  have c: "now_at sample (clock_reads sample_world) \<le> 28800001001"
    by (simp add: sample_def sample_lib_def sample_world_def)
  from validate_tgt_decoded [OF d sample_bare_expires_at r c]
  show ?thesis by (simp add: sample_world_def)
qed

lemma sample_bare_keyerror:
  "generate_service_ticket sample sample_auth sample_world
       [CHR 0x01, CHR ''j'', CHR ''j'', CHR ''j'', CHR ''j''] ''reporting-api''
     = (Inl KeyError, \<lparr>clock_reads = 1, rand_draws = 0\<rparr>)"
proof -
  have "service_ticket_data_dict sample sample_auth \<lparr>clock_reads = 1, rand_draws = 0\<rparr>
      sample_bare_data ''reporting-api'' = (Inl KeyError, \<lparr>clock_reads = 1, rand_draws = 0\<rparr>)"
    unfolding sample_bare_data_def by (rule service_ticket_data_dict_no_user_id) simp
  then show ?thesis by (rule generate_service_ticket_validated(1) [OF sample_validate_bare])
qed

lemma sample_last_expires_at:
  "subscript sample_last_tgt_data ''expires_at'' = Inr (JStr ''315537897599999999'')"
  by (simp add: sample_last_tgt_data_def subscript_JDict)

lemma sample_validate_last:
  "validate_tgt sample_before_end sample_auth sample_world
       [CHR 0x01, CHR ''j'', CHR ''j'', CHR ''j'', CHR ''j'', CHR ''j'']
     = (Some sample_last_tgt_data, \<lparr>clock_reads = 1, rand_draws = 0\<rparr>)"
proof -
  have d: "decode_ticket sample_before_end (crypto_utils sample_auth)
      [CHR 0x01, CHR ''j'', CHR ''j'', CHR ''j'', CHR ''j'', CHR ''j''] = Inr sample_last_tgt_data"
    unfolding sample_before_end_def sample_cu_auth by (rule sample_decode_others)
  have r: "fromisoformat sample_before_end ''315537897599999999''
      = Inr (Naive 315537897599999999)"
    by (simp add: sample_before_end_def sample_lib_def read_int_examples)
  have c: "now_at sample_before_end (clock_reads sample_world) \<le> 315537897599999999"
    by (simp add: sample_before_end_def sample_lib_def sample_world_def datetime_max_def
        hours_def)
  from validate_tgt_decoded [OF d sample_last_expires_at r c]
  show ?thesis by (simp add: sample_world_def)
qed

lemma sample_last_overflow:
  "generate_service_ticket sample_before_end sample_auth sample_world
       [CHR 0x01, CHR ''j'', CHR ''j'', CHR ''j'', CHR ''j'', CHR ''j''] ''reporting-api''
     = (Inl OverflowError, \<lparr>clock_reads = 3, rand_draws = 0\<rparr>)"
proof -
  have m: "map_of [(''user_id'', JStr ''1''), (''username'', JStr ''admin''),
      (''issued_at'', JStr ''315537868799999999''),
      (''expires_at'', JStr ''315537897599999999''),
      (''session_key'', JStr ''0''),
      (''permissions'', JList [JStr ''read'', JStr ''write'', JStr ''execute''])] ''user_id''
      = Some (JStr ''1'')"
    "map_of [(''user_id'', JStr ''1''), (''username'', JStr ''admin''),
      (''issued_at'', JStr ''315537868799999999''),
      (''expires_at'', JStr ''315537897599999999''),
      (''session_key'', JStr ''0''),
      (''permissions'', JList [JStr ''read'', JStr ''write'', JStr ''execute''])] ''username''
      = Some (JStr ''admin'')"
    by simp_all
  have o: "\<not> (0 \<le> now_at sample_before_end
        (Suc (clock_reads \<lparr>clock_reads = 1, rand_draws = 0\<rparr>))
        + service_ticket_lifetime sample_auth
      \<and> now_at sample_before_end (Suc (clock_reads \<lparr>clock_reads = 1, rand_draws = 0\<rparr>))
        + service_ticket_lifetime sample_auth \<le> datetime_max)"
    by (simp add: sample_before_end_def sample_lib_def sample_auth_def)
  have "service_ticket_data_dict sample_before_end sample_auth
      \<lparr>clock_reads = 1, rand_draws = 0\<rparr> sample_last_tgt_data ''reporting-api''
      = (Inl OverflowError, \<lparr>clock_reads = 3, rand_draws = 0\<rparr>)"
    unfolding sample_last_tgt_data_def service_ticket_data_dict_overflow [OF m o] by simp
  then show ?thesis by (rule generate_service_ticket_validated(1) [OF sample_validate_last])
qed

theorem service_ticket_inherits_witness:
  "validate_tgt sample sample_auth \<lparr>clock_reads = 2, rand_draws = 2\<rparr> [CHR 0x01, CHR ''j'']
     = (Some sample_tgt_data, \<lparr>clock_reads = 3, rand_draws = 2\<rparr>) \<and>
   generate_service_ticket sample sample_auth \<lparr>clock_reads = 2, rand_draws = 2\<rparr>
       [CHR 0x01, CHR ''j''] ''reporting-api''
     = (Inr [CHR 0x03, CHR ''j'', CHR ''j''], \<lparr>clock_reads = 5, rand_draws = 4\<rparr>) \<and>
   subscript sample_service_data ''permissions'' = subscript sample_tgt_data ''permissions'' \<and>
   generate_service_ticket sample sample_auth sample_world
       [CHR 0x01, CHR ''j'', CHR ''j'', CHR ''j'', CHR ''j''] ''reporting-api''
     = (Inl KeyError, \<lparr>clock_reads = 1, rand_draws = 0\<rparr>)"
proof -
  have u: "subscript sample_tgt_data ''user_id'' = Inr (JStr ''1'')"
    and n: "subscript sample_tgt_data ''username'' = Inr (JStr ''admin'')"
    and p: "subscript sample_tgt_data ''permissions''
        = Inr (JList [JStr ''read'', JStr ''write'', JStr ''execute''])"
    by (simp_all add: sample_tgt_data_def subscript_JDict)
  have x: "now_at sample (Suc (clock_reads \<lparr>clock_reads = 3, rand_draws = 2\<rparr>))
      + service_ticket_lifetime sample_auth = 7200001004"
    by (simp add: sample_def sample_lib_def sample_auth_def hours_def)
  have b: "subscript sample_bare_data ''user_id'' = Inl KeyError"
    by (simp add: sample_bare_data_def subscript_JDict)
  have r: "0 \<le> now_at sample (Suc (clock_reads \<lparr>clock_reads = 3, rand_draws = 2\<rparr>))
        + service_ticket_lifetime sample_auth \<and>
      now_at sample (Suc (clock_reads \<lparr>clock_reads = 3, rand_draws = 2\<rparr>))
        + service_ticket_lifetime sample_auth \<le> datetime_max"
    unfolding x by (simp add: datetime_max_def)
  from service_ticket_inherits [OF sample_validate_tgt, of "''reporting-api''"] u n r
  have "\<exists>data w3.
      service_ticket_data_dict sample sample_auth \<lparr>clock_reads = 3, rand_draws = 2\<rparr>
        sample_tgt_data ''reporting-api'' = (Inr data, w3) \<and>
      generate_service_ticket sample sample_auth \<lparr>clock_reads = 2, rand_draws = 2\<rparr>
        [CHR 0x01, CHR ''j''] ''reporting-api''
        = seal_ticket sample (crypto_utils sample_auth) w3 data \<and>
      (\<forall>p. subscript sample_tgt_data ''permissions'' = Inr p \<longrightarrow>
         subscript data ''permissions'' = Inr p)"
    by blast
  then have 1: "generate_service_ticket sample sample_auth \<lparr>clock_reads = 2, rand_draws = 2\<rparr>
       [CHR 0x01, CHR ''j''] ''reporting-api''
     = seal_ticket sample sample_cu \<lparr>clock_reads = 5, rand_draws = 3\<rparr> sample_service_data"
    and 2: "subscript sample_service_data ''permissions''
        = Inr (JList [JStr ''read'', JStr ''write'', JStr ''execute''])"
    unfolding sample_service_ticket_data_dict sample_cu_auth using p by auto
  from service_ticket_inherits [OF sample_validate_bare, of "''reporting-api''"] b
  have 3: "generate_service_ticket sample sample_auth sample_world
       [CHR 0x01, CHR ''j'', CHR ''j'', CHR ''j'', CHR ''j''] ''reporting-api''
     = (Inl KeyError, \<lparr>clock_reads = 1, rand_draws = 0\<rparr>)"
    by blast
  show ?thesis using sample_validate_tgt 1 2 3 p by (simp add: sample_seal_service)
qed

text \<open>C4, as the specification has it, fails in the sample runs on three counts. A
  ticket that decodes to a dict with \<open>expires_at\<close> alone is a valid ticket-granting
  ticket for \<open>_validate_tgt\<close>, and \<open>generate_service_ticket\<close> raises KeyError for it.
  The window of the service ticket issued from the sample ticket-granting ticket is not
  the lifetime of a service ticket: \<open>issued_at\<close> is 1003, and \<open>expires_at\<close> is not
  1003 plus the lifetime but one microsecond more. And two hours before
  \<open>datetime.max\<close> a valid ticket-granting ticket gives no service ticket:
  \<open>generate_service_ticket\<close> raises OverflowError.\<close>

theorem service_ticket_window_and_errors:
  "validate_tgt sample sample_auth sample_world
       [CHR 0x01, CHR ''j'', CHR ''j'', CHR ''j'', CHR ''j'']
     = (Some sample_bare_data, \<lparr>clock_reads = 1, rand_draws = 0\<rparr>) \<and>
   generate_service_ticket sample sample_auth sample_world
       [CHR 0x01, CHR ''j'', CHR ''j'', CHR ''j'', CHR ''j''] ''reporting-api''
     = (Inl KeyError, \<lparr>clock_reads = 1, rand_draws = 0\<rparr>) \<and>
   validate_tgt sample sample_auth \<lparr>clock_reads = 2, rand_draws = 2\<rparr> [CHR 0x01, CHR ''j'']
     = (Some sample_tgt_data, \<lparr>clock_reads = 3, rand_draws = 2\<rparr>) \<and>
   generate_service_ticket sample sample_auth \<lparr>clock_reads = 2, rand_draws = 2\<rparr>
       [CHR 0x01, CHR ''j''] ''reporting-api''
     = (Inr [CHR 0x03, CHR ''j'', CHR ''j''], \<lparr>clock_reads = 5, rand_draws = 4\<rparr>) \<and>
   decode_ticket sample (crypto_utils sample_auth) [CHR 0x03, CHR ''j'', CHR ''j'']
     = Inr sample_service_data \<and>
   subscript sample_service_data ''issued_at'' = Inr (JStr ''1003'') \<and>
   subscript sample_service_data ''expires_at'' = Inr (JStr ''7200001004'') \<and>
   isoformat sample (1003 + service_ticket_lifetime sample_auth) = ''7200001003'' \<and>
   validate_tgt sample_before_end sample_auth sample_world
       [CHR 0x01, CHR ''j'', CHR ''j'', CHR ''j'', CHR ''j'', CHR ''j'']
     = (Some sample_last_tgt_data, \<lparr>clock_reads = 1, rand_draws = 0\<rparr>) \<and>
   generate_service_ticket sample_before_end sample_auth sample_world
       [CHR 0x01, CHR ''j'', CHR ''j'', CHR ''j'', CHR ''j'', CHR ''j''] ''reporting-api''
     = (Inl OverflowError, \<lparr>clock_reads = 3, rand_draws = 0\<rparr>)"
proof -
  have d: "decode_ticket sample (crypto_utils sample_auth) [CHR 0x03, CHR ''j'', CHR ''j'']
     = Inr sample_service_data"
    unfolding sample_def sample_cu_auth by (rule sample_decode_service)
  have t: "subscript sample_service_data ''issued_at'' = Inr (JStr ''1003'')"
    "subscript sample_service_data ''expires_at'' = Inr (JStr ''7200001004'')"
    by (simp_all add: sample_service_data_def subscript_JDict)
  have i: "isoformat sample (1003 + service_ticket_lifetime sample_auth) = ''7200001003''"
    by (simp add: sample_def sample_lib_def sample_auth_def hours_def show_int_examples)
  show ?thesis
    using sample_validate_bare sample_bare_keyerror sample_validate_tgt
      sample_generate_service_ticket d t i sample_validate_last sample_last_overflow
    by blast
qed

section \<open>Password hashing\<close>
















end
